theory Spec2Isabelle
  imports Main "HOL-Library.Word"
begin

unbundle bit_operations_syntax

section \<open>Go values: bytes, errors, panics, slices\<close>

type_synonym byte = "8 word"

text \<open>
  The error values the packages \<open>message\<close>, \<open>persistence/types\<close> and \<open>bolt\<close> return.
  The first group is the codec's, the second the persistence layer's, the third the
  key-value library's own.
\<close>

datatype error =
    ErrInvalidMessageType
  | ErrInvalidMessageTypeFlags
  | ErrInvalidLength
  | ErrInsufficientBufferSize
  | ErrInvalidReturnCode
  | ErrInvalidQosType
  | ErrInvalidTopic
  | ErrPackedIDZero
  | ErrNotFound
  | ErrAlreadyExists
  | ErrNotOpen
  | ErrBucketExists
  | ErrBucketNotFound
  | ErrBucketNameRequired
  | ErrIncompatibleValue
  | ErrKeyRequired
  | ErrDatabaseNotOpen

text \<open>
  A Go call either returns its results or panics (an index or a slice bound out of range,
  a nil dereference). A panic is not an \<open>error\<close> value: it unwinds the caller.
\<close>

datatype 'a outcome = Panic | Return 'a

text \<open>
  \<open>s[lo:]\<close> and \<open>s[lo:hi]\<close>. Buffers are modelled with capacity equal to length, so
  the upper bound of a slice expression is checked against the length.
\<close>

definition slice_from :: "'a list \<Rightarrow> int \<Rightarrow> 'a list outcome" where
  "slice_from s lo =
     (if 0 \<le> lo \<and> lo \<le> int (length s) then Return (drop (nat lo) s) else Panic)"

definition slice :: "'a list \<Rightarrow> int \<Rightarrow> int \<Rightarrow> 'a list outcome" where
  "slice s lo hi =
     (if 0 \<le> lo \<and> lo \<le> hi \<and> hi \<le> int (length s)
      then Return (take (nat (hi - lo)) (drop (nat lo) s)) else Panic)"

text \<open>Writing the bytes \<open>bs\<close> into \<open>dst\<close> from index \<open>off\<close> on; an index out of range panics.\<close>

definition put_bytes :: "byte list \<Rightarrow> nat \<Rightarrow> byte list \<Rightarrow> byte list outcome" where
  "put_bytes dst off bs =
     (if off + length bs \<le> length dst
      then Return (take off dst @ bs @ drop (off + length bs) dst) else Panic)"

text \<open>\<open>binary.BigEndian.Uint16\<close> and \<open>PutUint16\<close>: both index \<open>b[1]\<close> first.\<close>

definition Uint16 :: "byte list \<Rightarrow> 16 word outcome" where
  "Uint16 b =
     (case b of
        b0 # b1 # _ \<Rightarrow> Return (push_bit 8 (ucast b0) OR ucast b1)
      | _ \<Rightarrow> Panic)"

definition itob16 :: "16 word \<Rightarrow> byte list" where
  "itob16 v = [ucast (drop_bit 8 v), ucast v]"

definition PutUint16 :: "byte list \<Rightarrow> nat \<Rightarrow> 16 word \<Rightarrow> byte list outcome" where
  "PutUint16 dst off v = put_bytes dst off (itob16 v)"

section \<open>Packet types and QoS\<close>

abbreviation CONNECT :: byte where "CONNECT \<equiv> 1"
abbreviation CONNACK :: byte where "CONNACK \<equiv> 2"
abbreviation PUBLISH :: byte where "PUBLISH \<equiv> 3"
abbreviation PUBACK :: byte where "PUBACK \<equiv> 4"
abbreviation PUBREC :: byte where "PUBREC \<equiv> 5"
abbreviation PUBREL :: byte where "PUBREL \<equiv> 6"
abbreviation PUBCOMP :: byte where "PUBCOMP \<equiv> 7"
abbreviation SUBSCRIBE :: byte where "SUBSCRIBE \<equiv> 8"
abbreviation SUBACK :: byte where "SUBACK \<equiv> 9"
abbreviation UNSUBSCRIBE :: byte where "UNSUBSCRIBE \<equiv> 10"
abbreviation UNSUBACK :: byte where "UNSUBACK \<equiv> 11"
abbreviation PINGREQ :: byte where "PINGREQ \<equiv> 12"
abbreviation PINGRESP :: byte where "PINGRESP \<equiv> 13"
abbreviation DISCONNECT :: byte where "DISCONNECT \<equiv> 14"

text \<open>
  Modelled from the spec: \<open>Type.Valid\<close> and \<open>Type.DefaultFlags\<close> are not among the
  sources (only \<open>TestMessageTypes\<close> and \<open>TestFixedHeaderFlags\<close> are). The fixed-header
  type is one of the 14 values 1..14; the mandated flags are 0x02 for PUBREL, SUBSCRIBE
  and UNSUBSCRIBE and 0 for every other type.
\<close>

definition Type_Valid :: "byte \<Rightarrow> bool" where
  "Type_Valid t = (1 \<le> t \<and> t \<le> 14)"

definition Type_DefaultFlags :: "byte \<Rightarrow> byte" where
  "Type_DefaultFlags t = (if t = PUBREL \<or> t = SUBSCRIBE \<or> t = UNSUBSCRIBE then 2 else 0)"

text \<open>
  Modelled from the spec: \<open>QosType.IsValidFull\<close> is not among the sources. It is the
  predicate \<open>SubAckMessage\<close> applies to return codes; the spec gives the valid return codes
  as the byte values 0, 1, 2 and 0x80 (failure).
\<close>

abbreviation QoS0 :: byte where "QoS0 \<equiv> 0"
abbreviation QoS1 :: byte where "QoS1 \<equiv> 1"
abbreviation QoS2 :: byte where "QoS2 \<equiv> 2"
abbreviation QosFailure :: byte where "QosFailure \<equiv> 0x80"

definition IsValidFull :: "byte \<Rightarrow> bool" where
  "IsValidFull c = (c = QoS0 \<or> c = QoS1 \<or> c = QoS2 \<or> c = QosFailure)"

text \<open>
  Modelled from the spec: \<open>QosType.IsValid\<close> (used by \<open>PublishMessage.SetQoS\<close>) is not
  among the sources; the QoS values are 0, 1 and 2.
\<close>

definition IsValid :: "byte \<Rightarrow> bool" where
  "IsValid c = (c = QoS0 \<or> c = QoS1 \<or> c = QoS2)"

section \<open>The fixed header\<close>

text \<open>
  Modelled from the spec: the declaration of the struct \<open>header\<close>, embedded in every
  message of \<open>pubrel.go\<close>, \<open>pingreq.go\<close> and the SUBACK file, is not among the sources.
  Its fields are the ones those files use: the type-and-flags byte, the remaining length
  (an \<open>int32\<close>) and the packet identifier, 0 while unset. Its callback \<open>sizeCb\<close> is
  the \<open>size\<close> method of the embedding message; the model passes that method's result
  to \<open>Size\<close>.
\<close>

record header =
  mTypeFlags :: byte
  remLen :: int
  packetID :: "16 word"

definition maxRemainingLength :: int where
  "maxRemainingLength = 268435455"

text \<open>
  The remaining length as a varint of at most \<open>k\<close> bytes: seven bits a byte, least
  significant group first, the top bit set on every byte but the last. The decoder gives
  the value and the number of bytes read, \<open>None\<close> when the buffer ends inside the varint
  or a \<open>k\<close>-th byte still has its top bit set.
\<close>

fun remLen_decode :: "nat \<Rightarrow> byte list \<Rightarrow> (nat \<times> nat) option" where
  "remLen_decode 0 bs = None"
| "remLen_decode (Suc k) [] = None"
| "remLen_decode (Suc k) (b # bs) =
     (if b AND 0x80 = 0 then Some (unat b, 1)
      else (case remLen_decode k bs of
              None \<Rightarrow> None
            | Some (v, n) \<Rightarrow> Some (unat (b AND 0x7F) + 128 * v, Suc n)))"

fun remLen_encode :: "nat \<Rightarrow> nat \<Rightarrow> byte list" where
  "remLen_encode 0 x = []"
| "remLen_encode (Suc k) x =
     (if x < 128 then [of_nat x]
      else (of_nat (x mod 128) OR 0x80) # remLen_encode k (x div 128))"

text \<open>
  Modelled from the spec: \<open>header.decode\<close> is not among the sources. Byte 0 holds the type
  (top four bits) and the flags (bottom four); the type must be one of the 14 known
  values (\<open>ErrInvalidMessageType\<close>), the flags must equal the type's mandated pattern
  where that is fixed, that is for every type but PUBLISH (\<open>ErrInvalidMessageTypeFlags\<close>);
  the remaining length is a varint of one to four bytes, and a longer or truncated one, or
  a declared remaining length beyond the end of the buffer, is \<open>ErrInvalidLength\<close>. The
  result is the number of bytes consumed, the header as updated, and the error.
\<close>

definition header_decode ::
  "'a header_scheme \<Rightarrow> byte list \<Rightarrow> nat \<times> 'a header_scheme \<times> error option" where
  "header_decode h src =
     (case src of
        [] \<Rightarrow> (0, h, Some ErrInvalidLength)
      | b # rest \<Rightarrow>
          (let t = drop_bit 4 b; f = b AND 0x0F; h1 = h\<lparr>mTypeFlags := b\<rparr> in
           if \<not> Type_Valid t then (0, h1, Some ErrInvalidMessageType)
           else if t \<noteq> PUBLISH \<and> f \<noteq> Type_DefaultFlags t
             then (0, h1, Some ErrInvalidMessageTypeFlags)
           else (case remLen_decode 4 rest of
                   None \<Rightarrow> (1, h1, Some ErrInvalidLength)
                 | Some (v, m) \<Rightarrow>
                     (if length rest < m + v
                      then (1 + m, h1\<lparr>remLen := int v\<rparr>, Some ErrInvalidLength)
                      else (1 + m, h1\<lparr>remLen := int v\<rparr>, None)))))"

text \<open>
  Modelled from the spec: \<open>header.encode\<close> is not among the sources. It writes the
  type-and-flags byte and then the remaining length in its minimal varint encoding, and
  returns the number of bytes written. It has no error result in \<open>pubrel.go\<close>; writing
  beyond the end of \<open>dst\<close> panics, as any Go index out of range does.
\<close>

definition header_bytes :: "'a header_scheme \<Rightarrow> byte list" where
  "header_bytes h = mTypeFlags h # remLen_encode 4 (nat (remLen h))"

definition header_encode ::
  "'a header_scheme \<Rightarrow> byte list \<Rightarrow> nat \<Rightarrow> (nat \<times> byte list) outcome" where
  "header_encode h dst off =
     (case put_bytes dst off (header_bytes h) of
        Panic \<Rightarrow> Panic
      | Return d \<Rightarrow> Return (length (header_bytes h), d))"

text \<open>
  Modelled from the spec: \<open>header.setType\<close> and \<open>header.Size\<close> are not among the
  sources. \<open>setType\<close> stores the type with its mandated flags. \<open>Size\<close> takes the
  remaining length from the message's \<open>size\<close> method (\<open>ml\<close>), stores it in the header and
  returns the length of the whole encoded packet, the number callers compare with the
  destination's capacity; a remaining length beyond the protocol maximum is
  \<open>ErrInvalidLength\<close>. The test for an unset packet identifier is made by each message's
  \<open>preEncode\<close>, which is among the sources.
\<close>

definition setType :: "'a header_scheme \<Rightarrow> byte \<Rightarrow> 'a header_scheme" where
  "setType h t = h\<lparr>mTypeFlags := push_bit 4 t OR (Type_DefaultFlags t AND 0x0F)\<rparr>"

definition Size ::
  "'a header_scheme \<Rightarrow> int \<Rightarrow> int \<times> error option \<times> 'a header_scheme" where
  "Size h ml =
     (if ml < 0 \<or> maxRemainingLength < ml then (0, Some ErrInvalidLength, h)
      else (let h1 = h\<lparr>remLen := ml\<rparr> in
            (int (length (header_bytes h1)) + ml, None, h1)))"

section \<open>PUBREL (pubrel.go)\<close>

definition NewPubRelMessage :: header where
  "NewPubRelMessage =
     (let msg = setType \<lparr>mTypeFlags = 0, remLen = 0, packetID = 0\<rparr> PUBREL
      in msg\<lparr>mTypeFlags := mTypeFlags msg OR 0x02\<rparr>)"

definition SetPacketID :: "'a header_scheme \<Rightarrow> 16 word \<Rightarrow> 'a header_scheme" where
  "SetPacketID msg v = msg\<lparr>packetID := v\<rparr>"

definition PubRel_size :: "header \<Rightarrow> int" where
  "PubRel_size msg = 2"

definition PubRel_decode :: "header \<Rightarrow> byte list \<Rightarrow> (header \<times> int \<times> error option) outcome" where
  "PubRel_decode msg src =
     (case header_decode msg src of
        (n, m1, err) \<Rightarrow>
          (let total = int n in
           case err of
             Some e \<Rightarrow> Return (m1, total, Some e)
           | None \<Rightarrow>
               (case slice_from src total of
                  Panic \<Rightarrow> Panic
                | Return s \<Rightarrow>
                    (case Uint16 s of
                       Panic \<Rightarrow> Panic
                     | Return v \<Rightarrow> Return (m1\<lparr>packetID := v\<rparr>, total + 2, None)))))"

definition PubRel_preEncode ::
  "header \<Rightarrow> byte list \<Rightarrow> (byte list \<times> int \<times> error option) outcome" where
  "PubRel_preEncode msg dst =
     (if packetID msg = 0 then Return (dst, 0, Some ErrPackedIDZero)
      else (case header_encode msg dst 0 of
              Panic \<Rightarrow> Panic
            | Return (n, d1) \<Rightarrow>
                (case PutUint16 d1 n (packetID msg) of
                   Panic \<Rightarrow> Panic
                 | Return d2 \<Rightarrow> Return (d2, int n + 2, None))))"

definition PubRel_Encode ::
  "header \<Rightarrow> byte list \<Rightarrow> (byte list \<times> int \<times> error option) outcome" where
  "PubRel_Encode msg dst =
     (case Size msg (PubRel_size msg) of
        (expectedSize, err, m1) \<Rightarrow>
          (case err of
             Some e \<Rightarrow> Return (dst, 0, Some e)
           | None \<Rightarrow>
               if int (length dst) < expectedSize
               then Return (dst, expectedSize, Some ErrInsufficientBufferSize)
               else PubRel_preEncode m1 dst))"

section \<open>SUBACK\<close>

record SubAckMessage = header +
  returnCodes :: "byte list"

definition NewSubAckMessage :: SubAckMessage where
  "NewSubAckMessage =
     setType \<lparr>mTypeFlags = 0, remLen = 0, packetID = 0, returnCodes = []\<rparr> SUBACK"

text \<open>
  \<open>AddReturnCodes\<close> ranges over \<open>ret\<close>, returning at the first code that is not valid
  and appending each code before it.
\<close>

fun AddReturnCodes :: "SubAckMessage \<Rightarrow> byte list \<Rightarrow> SubAckMessage \<times> error option" where
  "AddReturnCodes msg [] = (msg, None)"
| "AddReturnCodes msg (c # ret) =
     (if \<not> IsValidFull c then (msg, Some ErrInvalidReturnCode)
      else AddReturnCodes (msg\<lparr>returnCodes := returnCodes msg @ [c]\<rparr>) ret)"

definition AddReturnCode :: "SubAckMessage \<Rightarrow> byte \<Rightarrow> SubAckMessage \<times> error option" where
  "AddReturnCode msg ret = AddReturnCodes msg [ret]"

definition SubAck_size :: "SubAckMessage \<Rightarrow> int" where
  "SubAck_size msg = 2 + int (length (returnCodes msg))"

text \<open>
  \<open>decode\<close>: the header, the packet identifier, then \<open>l = remLen - 2\<close> return codes
  copied over the front of \<open>returnCodes\<close> (a fresh slice of \<open>l\<close> zeros when the old one is
  shorter); \<open>total\<close> grows by the length of \<open>returnCodes\<close>, and every element of it is
  then checked.
\<close>

definition SubAck_decode ::
  "SubAckMessage \<Rightarrow> byte list \<Rightarrow> (SubAckMessage \<times> int \<times> error option) outcome" where
  "SubAck_decode msg src =
     (case header_decode msg src of
        (hn, m1, err) \<Rightarrow>
          (case err of
             Some e \<Rightarrow> Return (m1, int hn, Some e)
           | None \<Rightarrow>
               (case slice_from src (int hn) of
                  Panic \<Rightarrow> Panic
                | Return s \<Rightarrow>
                    (case Uint16 s of
                       Panic \<Rightarrow> Panic
                     | Return v \<Rightarrow>
                         (let m2 = m1\<lparr>packetID := v\<rparr>;
                              total = int hn + 2;
                              l = remLen m2 - (total - int hn);
                              rc = (if int (length (returnCodes m2)) < l
                                    then replicate (nat l) 0 else returnCodes m2)
                          in case slice src total (total + l) of
                               Panic \<Rightarrow> Panic
                             | Return qs \<Rightarrow>
                                 (let rc' = qs @ drop (length qs) rc;
                                      m3 = m2\<lparr>returnCodes := rc'\<rparr>;
                                      total' = total + int (length rc')
                                  in Return (m3, total',
                                       if list_all IsValidFull rc' then None
                                       else Some ErrInvalidReturnCode)))))))"

definition SubAck_preEncode ::
  "SubAckMessage \<Rightarrow> byte list \<Rightarrow> (byte list \<times> int \<times> error option) outcome" where
  "SubAck_preEncode msg dst =
     (if packetID msg = 0 then Return (dst, 0, Some ErrPackedIDZero)
      else (case header_encode msg dst 0 of
              Panic \<Rightarrow> Panic
            | Return (n, d1) \<Rightarrow>
                (case PutUint16 d1 n (packetID msg) of
                   Panic \<Rightarrow> Panic
                 | Return d2 \<Rightarrow>
                     (case put_bytes d2 (n + 2) (returnCodes msg) of
                        Panic \<Rightarrow> Panic
                      | Return d3 \<Rightarrow>
                          Return (d3, int n + 2 + int (length (returnCodes msg)), None)))))"

definition SubAck_Encode ::
  "SubAckMessage \<Rightarrow> byte list \<Rightarrow> (byte list \<times> int \<times> error option) outcome" where
  "SubAck_Encode msg dst =
     (case Size msg (SubAck_size msg) of
        (expectedSize, err, m1) \<Rightarrow>
          (case err of
             Some e \<Rightarrow> Return (dst, 0, Some e)
           | None \<Rightarrow>
               if int (length dst) < expectedSize
               then Return (dst, expectedSize, Some ErrInsufficientBufferSize)
               else SubAck_preEncode m1 dst))"

section \<open>UNSUBACK\<close>

text \<open>
  Modelled from the spec: the header the UNSUBACK file is written against is not among the
  sources, and it is an earlier form of the one above. Going by the uses in that file,
  the packet identifier is a byte slice (nil until set), the message keeps the bytes it
  was decoded from in \<open>dBuf\<close> and a flag \<open>dirty\<close> that says whether its fields changed
  since, and \<open>header.encode\<close> returns an error as well. The fields carry the suffix \<open>0\<close>
  where the name is taken by the record above.
\<close>

record header0 =
  mTypeFlags0 :: byte
  remLen0 :: int
  packetID0 :: "byte list"
  dirty :: bool
  dBuf :: "byte list"

text \<open>
  Modelled from the spec: \<open>header.msgLen\<close>, \<open>SetRemainingLength\<close> and this form of
  \<open>header.encode\<close> are not among the sources. The header is the type-and-flags byte and
  the minimal varint of the remaining length; a remaining length outside 0..268435455 is
  \<open>ErrInvalidLength\<close>, a destination shorter than the header \<open>ErrInsufficientBufferSize\<close>.
\<close>

definition header0_bytes :: "header0 \<Rightarrow> byte list" where
  "header0_bytes h = mTypeFlags0 h # remLen_encode 4 (nat (remLen0 h))"

definition header0_msgLen :: "header0 \<Rightarrow> int" where
  "header0_msgLen h = int (length (header0_bytes h))"

definition SetRemainingLength :: "header0 \<Rightarrow> int \<Rightarrow> header0 \<times> error option" where
  "SetRemainingLength h l =
     (if l < 0 \<or> maxRemainingLength < l then (h, Some ErrInvalidLength)
      else (h\<lparr>remLen0 := l\<rparr>, None))"

definition header0_encode ::
  "header0 \<Rightarrow> byte list \<Rightarrow> nat \<Rightarrow> nat \<times> byte list \<times> error option" where
  "header0_encode h dst off =
     (if remLen0 h < 0 \<or> maxRemainingLength < remLen0 h then (0, dst, Some ErrInvalidLength)
      else (case put_bytes dst off (header0_bytes h) of
              Panic \<Rightarrow> (0, dst, Some ErrInsufficientBufferSize)
            | Return d \<Rightarrow> (length (header0_bytes h), d, None)))"

definition UnSubAck_msgLen :: "header0 \<Rightarrow> int" where
  "UnSubAck_msgLen msg = 2"

definition UnSubAck_Len :: "header0 \<Rightarrow> int \<times> header0" where
  "UnSubAck_Len msg =
     (if \<not> dirty msg then (int (length (dBuf msg)), msg)
      else (let ml = UnSubAck_msgLen msg in
            case SetRemainingLength msg ml of
              (m1, Some e) \<Rightarrow> (0, m1)
            | (m1, None) \<Rightarrow> (header0_msgLen m1 + ml, m1)))"

text \<open>
  \<open>copy(dst[total:total+2], msg.packetID)\<close> copies at most two bytes and returns how
  many; when that is not 2 the code stores 0 in both places.
\<close>

definition UnSubAck_Encode ::
  "header0 \<Rightarrow> byte list \<Rightarrow> (byte list \<times> int \<times> error option) outcome" where
  "UnSubAck_Encode msg dst =
     (case UnSubAck_Len msg of
        (expectedSize, m1) \<Rightarrow>
          if int (length dst) < expectedSize
          then Return (dst, expectedSize, Some ErrInsufficientBufferSize)
          else if \<not> dirty m1
          then Return (dBuf m1 @ drop (length (dBuf m1)) dst, int (length (dBuf m1)), None)
          else (case header0_encode m1 dst 0 of
                  (n, d1, Some e) \<Rightarrow> Return (d1, 0, Some e)
                | (n, d1, None) \<Rightarrow>
                    (case slice d1 (int n) (int n + 2) of
                       Panic \<Rightarrow> Panic
                     | Return w \<Rightarrow>
                         (case put_bytes d1 n
                                 (if 2 \<le> length (packetID0 m1) then take 2 (packetID0 m1)
                                  else [0, 0]) of
                            Panic \<Rightarrow> Panic
                          | Return d2 \<Rightarrow> Return (d2, int n + 2, None)))))"

section \<open>PUBLISH and the Provider interface\<close>

text \<open>
  Go strings are immutable byte sequences; topics, session identifiers and bucket names
  are byte lists, and \<open>bytes_of\<close> gives the bytes of a string literal.
\<close>

definition bytes_of :: "string \<Rightarrow> byte list" where
  "bytes_of s = map (\<lambda>c. of_nat (of_char c)) s"

text \<open>
  Modelled from the spec: \<open>PublishMessage\<close> and its methods are not among the sources.
  A PUBLISH carries the header, a topic name that must not contain the wildcard
  characters \<open>#\<close> and \<open>+\<close>, and a raw payload; its QoS is the two-bit field in bits 2-1 of
  the flags and must be 0, 1 or 2 (\<open>ErrInvalidQosType\<close>). The spec names no error kind
  for a topic \<open>SetTopic\<close> refuses; it is \<open>ErrInvalidTopic\<close> here.
\<close>

record PublishMessage = header +
  topic :: "byte list"
  payload :: "byte list"

definition NewPublishMessage :: PublishMessage where
  "NewPublishMessage =
     setType \<lparr>mTypeFlags = 0, remLen = 0, packetID = 0, topic = [], payload = []\<rparr> PUBLISH"

definition QoS :: "PublishMessage \<Rightarrow> byte" where
  "QoS msg = drop_bit 1 (mTypeFlags msg) AND 3"

definition SetQoS :: "PublishMessage \<Rightarrow> byte \<Rightarrow> PublishMessage \<times> error option" where
  "SetQoS msg v =
     (if \<not> IsValid v then (msg, Some ErrInvalidQosType)
      else (msg\<lparr>mTypeFlags := (mTypeFlags msg AND 0xF9) OR push_bit 1 v\<rparr>, None))"

definition SetTopic :: "PublishMessage \<Rightarrow> byte list \<Rightarrow> PublishMessage \<times> error option" where
  "SetTopic msg v =
     (if 0x23 \<in> set v \<or> 0x2B \<in> set v then (msg, Some ErrInvalidTopic)
      else (msg\<lparr>topic := v\<rparr>, None))"

definition SetPayload :: "PublishMessage \<Rightarrow> byte list \<Rightarrow> PublishMessage" where
  "SetPayload msg v = msg\<lparr>payload := v\<rparr>"

text \<open>
  \<open>message.Provider\<close>, the interface every message satisfies. The persistence code tells
  \<open>*PublishMessage\<close> and \<open>*PubRelMessage\<close> apart by a type switch; of any other message
  it reads the header only.
\<close>

datatype Provider =
    Publish PublishMessage
  | PubRel header
  | Other header

definition Provider_Type :: "Provider \<Rightarrow> byte" where
  "Provider_Type m =
     (case m of
        Publish p \<Rightarrow> drop_bit 4 (mTypeFlags p)
      | PubRel h \<Rightarrow> drop_bit 4 (mTypeFlags h)
      | Other h \<Rightarrow> drop_bit 4 (mTypeFlags h))"

definition Provider_PacketID :: "Provider \<Rightarrow> 16 word" where
  "Provider_PacketID m =
     (case m of
        Publish p \<Rightarrow> packetID p
      | PubRel h \<Rightarrow> packetID h
      | Other h \<Rightarrow> packetID h)"

text \<open>
  Modelled from the spec: \<open>Type.NewMessage\<close> is not among the sources. It maps each of
  the 14 packet types to a freshly constructed message of that type and fails with
  \<open>ErrInvalidMessageType\<close> on any other value.
\<close>

definition NewMessage :: "byte \<Rightarrow> error + Provider" where
  "NewMessage t =
     (if \<not> Type_Valid t then Inl ErrInvalidMessageType
      else if t = PUBLISH then Inr (Publish NewPublishMessage)
      else if t = PUBREL then Inr (PubRel NewPubRelMessage)
      else Inr (Other (setType \<lparr>mTypeFlags = 0, remLen = 0, packetID = 0\<rparr> t)))"

section \<open>The key-value library\<close>

text \<open>
  The persistence code is written against the embedded key-value library \<open>bolt\<close>, which
  is not part of the repository. Its buckets are modelled by the contract of the calls
  the code makes: a bucket holds a sequence counter and its keys in byte order, each key
  bound to a value or to a nested bucket. A call on a nil \<open>*Bucket\<close> or nil \<open>*DB\<close>
  dereferences nil and panics. Limits on key and value sizes are left out.
\<close>

type_synonym key = "byte list"

datatype bucket = MkBucket (sequence: "64 word") (nodes: "(key \<times> node) list")
  and node = Val "byte list" | Sub bucket

fun key_less :: "key \<Rightarrow> key \<Rightarrow> bool" where
  "key_less [] [] = False"
| "key_less [] (y # ys) = True"
| "key_less (x # xs) [] = False"
| "key_less (x # xs) (y # ys) = (x < y \<or> (x = y \<and> key_less xs ys))"

fun put_node :: "key \<Rightarrow> node \<Rightarrow> (key \<times> node) list \<Rightarrow> (key \<times> node) list" where
  "put_node k v [] = [(k, v)]"
| "put_node k v ((k', v') # kvs) =
     (if k = k' then (k, v) # kvs
      else if key_less k k' then (k, v) # (k', v') # kvs
      else (k', v') # put_node k v kvs)"

definition set_sub :: "bucket \<Rightarrow> key \<Rightarrow> bucket \<Rightarrow> bucket" where
  "set_sub b k c = MkBucket (sequence b) (put_node k (Sub c) (nodes b))"

text \<open>\<open>b.Bucket(name)\<close>: nil unless the key is bound to a nested bucket.\<close>

definition bolt_Bucket :: "bucket \<Rightarrow> key \<Rightarrow> bucket option" where
  "bolt_Bucket b name =
     (case map_of (nodes b) name of Some (Sub c) \<Rightarrow> Some c | _ \<Rightarrow> None)"

text \<open>\<open>b.Get(key)\<close>: nil (the empty slice here) unless the key is bound to a value.\<close>

definition bolt_Get :: "bucket \<Rightarrow> key \<Rightarrow> byte list" where
  "bolt_Get b k = (case map_of (nodes b) k of Some (Val v) \<Rightarrow> v | _ \<Rightarrow> [])"

definition bolt_Put :: "bucket \<Rightarrow> key \<Rightarrow> byte list \<Rightarrow> error + bucket" where
  "bolt_Put b k v =
     (if k = [] then Inl ErrKeyRequired
      else (case map_of (nodes b) k of
              Some (Sub c) \<Rightarrow> Inl ErrIncompatibleValue
            | _ \<Rightarrow> Inr (MkBucket (sequence b) (put_node k (Val v) (nodes b)))))"

text \<open>
  \<open>b.CreateBucket(key)\<close> gives the parent with the new, empty bucket in it;
  \<open>CreateBucketIfNotExists\<close> gives the parent and the bucket at the key.
\<close>

definition bolt_CreateBucket :: "bucket \<Rightarrow> key \<Rightarrow> error + bucket" where
  "bolt_CreateBucket b k =
     (if k = [] then Inl ErrBucketNameRequired
      else (case map_of (nodes b) k of
              Some (Sub c) \<Rightarrow> Inl ErrBucketExists
            | Some (Val v) \<Rightarrow> Inl ErrIncompatibleValue
            | None \<Rightarrow> Inr (set_sub b k (MkBucket 0 []))))"

definition bolt_CreateBucketIfNotExists :: "bucket \<Rightarrow> key \<Rightarrow> error + (bucket \<times> bucket)" where
  "bolt_CreateBucketIfNotExists b k =
     (case bolt_CreateBucket b k of
        Inr b' \<Rightarrow> Inr (b', MkBucket 0 [])
      | Inl e \<Rightarrow>
          (if e = ErrBucketExists
           then (case bolt_Bucket b k of Some c \<Rightarrow> Inr (b, c) | None \<Rightarrow> Inl e)
           else Inl e))"

definition bolt_DeleteBucket :: "bucket \<Rightarrow> key \<Rightarrow> error + bucket" where
  "bolt_DeleteBucket b k =
     (case map_of (nodes b) k of
        None \<Rightarrow> Inl ErrBucketNotFound
      | Some (Val v) \<Rightarrow> Inl ErrIncompatibleValue
      | Some (Sub c) \<Rightarrow> Inr (MkBucket (sequence b) (filter (\<lambda>kv. fst kv \<noteq> k) (nodes b))))"

text \<open>\<open>b.NextSequence()\<close> increments the bucket's counter and returns it.\<close>

definition bolt_NextSequence :: "bucket \<Rightarrow> 64 word \<times> bucket" where
  "bolt_NextSequence b = (sequence b + 1, MkBucket (sequence b + 1) (nodes b))"

definition itob64 :: "64 word \<Rightarrow> byte list" where
  "itob64 v = map (\<lambda>i. ucast (drop_bit (8 * (7 - i)) v)) [0..<8]"

text \<open>
  \<open>ForEach\<close> and a cursor from \<open>First\<close> to the end visit the keys in order, giving
  the value nil for a key bound to a nested bucket.
\<close>

definition node_value :: "node \<Rightarrow> byte list" where
  "node_value n = (case n of Val v \<Rightarrow> v | Sub c \<Rightarrow> [])"

section \<open>The boltdb backend\<close>

definition bucketRetained :: key where "bucketRetained = bytes_of ''retained''"
definition bucketSessions :: key where "bucketSessions = bytes_of ''sessions''"
definition bucketMessages :: key where "bucketMessages = bytes_of ''messages''"
definition bucketSubscriptions :: key where "bucketSubscriptions = bytes_of ''subscriptions''"

text \<open>
  \<open>impl\<close>: whether the channel \<open>done\<close> is closed (\<open>done_closed\<close>), and the database
  handle (nil after \<open>Shutdown\<close>; the root bucket otherwise). The objects \<open>sessions\<close>,
  \<open>retained\<close>, \<open>session\<close>, \<open>subscriptions\<close> and \<open>messages\<close> hold pointers into \<open>impl\<close>
  and, the last three, a session identifier; a call on one of them takes the state of
  \<open>impl\<close> and that identifier. The mutex \<open>lock\<close> and the wait group \<open>wgTx\<close> matter only
  when goroutines interleave; they are in the model of section
  \<open>Shutdown among goroutines\<close>.
\<close>

record impl =
  done_closed :: bool
  db :: "bucket option"

text \<open>
  \<open>db.Update\<close> runs the function on the root bucket and keeps its writes unless it
  returns an error; \<open>db.View\<close> only reads.
\<close>

definition Update ::
  "impl \<Rightarrow> (bucket \<Rightarrow> (error + bucket) outcome) \<Rightarrow> (error option \<times> impl) outcome" where
  "Update st f =
     (case db st of
        None \<Rightarrow> Panic
      | Some tx \<Rightarrow>
          (case f tx of
             Panic \<Rightarrow> Panic
           | Return (Inl e) \<Rightarrow> Return (Some e, st)
           | Return (Inr tx') \<Rightarrow> Return (None, st\<lparr>db := Some tx'\<rparr>)))"

definition View :: "impl \<Rightarrow> (bucket \<Rightarrow> 'r outcome) \<Rightarrow> 'r outcome" where
  "View st f = (case db st of None \<Rightarrow> Panic | Some tx \<Rightarrow> f tx)"

text \<open>
  \<open>NewBoltDB\<close> opens the database file and returns the provider, its channel open;
  \<open>root\<close> is the content of the file.
\<close>

definition NewBoltDB :: "bucket \<Rightarrow> impl" where
  "NewBoltDB root = \<lparr>done_closed = False, db = Some root\<rparr>"

subsection \<open>putMsg and getMsgs\<close>

definition putMsg :: "bucket \<Rightarrow> Provider \<Rightarrow> error + bucket" where
  "putMsg b msg =
     (case bolt_Put b (bytes_of ''type'') [Provider_Type msg] of
        Inl e \<Rightarrow> Inl e
      | Inr b1 \<Rightarrow>
          (case (if Provider_PacketID msg \<noteq> 0
                 then bolt_Put b1 (bytes_of ''id'') (itob16 (Provider_PacketID msg))
                 else Inr b1) of
             Inl e \<Rightarrow> Inl e
           | Inr b2 \<Rightarrow>
               (case msg of
                  Publish m \<Rightarrow>
                    (case bolt_Put b2 (bytes_of ''qos'') [QoS m] of
                       Inl e \<Rightarrow> Inl e
                     | Inr b3 \<Rightarrow>
                         (case bolt_Put b3 (bytes_of ''topic'') (topic m) of
                            Inl e \<Rightarrow> Inl e
                          | Inr b4 \<Rightarrow>
                              (if 0 < length (payload m)
                               then bolt_Put b4 (bytes_of ''payload'') (payload m)
                               else Inr b4)))
                | PubRel h \<Rightarrow> Inr b2
                | Other h \<Rightarrow> Inr b2)))"

text \<open>
  The callback \<open>getMsgs\<close> passes to \<open>ForEach\<close>: only a \<open>*PublishMessage\<close> has a case in
  the type switch, so the fields of every other message are read and dropped.
\<close>

definition getMsgs_field ::
  "Provider \<Rightarrow> key \<Rightarrow> byte list \<Rightarrow> (Provider \<times> error option) outcome" where
  "getMsgs_field mT name val =
     (case mT of
        Publish m \<Rightarrow>
          (if name = bytes_of ''id'' then
             (case Uint16 val of
                Panic \<Rightarrow> Panic
              | Return v \<Rightarrow> Return (Publish (SetPacketID m v), None))
           else if name = bytes_of ''topic'' then
             (case SetTopic m val of (m', e) \<Rightarrow> Return (Publish m', e))
           else if name = bytes_of ''payload'' then
             Return (Publish (SetPayload m val), None)
           else if name = bytes_of ''qos'' then
             (case val of
                [] \<Rightarrow> Panic
              | q # _ \<Rightarrow> (case SetQoS m q of (m', e) \<Rightarrow> Return (Publish m', e)))
           else Return (mT, None))
      | PubRel h \<Rightarrow> Return (mT, None)
      | Other h \<Rightarrow> Return (mT, None))"

fun getMsgs_fields ::
  "(key \<times> node) list \<Rightarrow> Provider \<Rightarrow> (Provider \<times> error option) outcome" where
  "getMsgs_fields [] mT = Return (mT, None)"
| "getMsgs_fields ((name, n) # kvs) mT =
     (case getMsgs_field mT name (node_value n) of
        Panic \<Rightarrow> Panic
      | Return (mT', Some e) \<Rightarrow> Return (mT', Some e)
      | Return (mT', None) \<Rightarrow> getMsgs_fields kvs mT')"

text \<open>
  One turn of the cursor loop of \<open>getMsgs\<close>: the bucket at the key (nil when the key
  holds a plain value: the call of \<open>Get\<close> on it panics), its \<open>type\<close> (indexing an empty
  value panics), the message constructed for that type, and its fields.
\<close>

definition getMsgs_entry :: "bucket \<Rightarrow> key \<Rightarrow> (error + Provider) outcome" where
  "getMsgs_entry b k =
     (case bolt_Bucket b k of
        None \<Rightarrow> Panic
      | Some packBuk \<Rightarrow>
          (case bolt_Get packBuk (bytes_of ''type'') of
             [] \<Rightarrow> Panic
           | t # _ \<Rightarrow>
               (case NewMessage t of
                  Inl err \<Rightarrow> Return (Inl err)
                | Inr mT \<Rightarrow>
                    (case getMsgs_fields (nodes packBuk) mT of
                       Panic \<Rightarrow> Panic
                     | Return (mT', Some err) \<Rightarrow> Return (Inl err)
                     | Return (mT', None) \<Rightarrow> Return (Inr mT')))))"

fun getMsgs_loop ::
  "bucket \<Rightarrow> key list \<Rightarrow> Provider list \<Rightarrow> (Provider list \<times> error option) outcome" where
  "getMsgs_loop b [] entries = Return (entries, None)"
| "getMsgs_loop b (k # ks) entries =
     (case getMsgs_entry b k of
        Panic \<Rightarrow> Panic
      | Return (Inl err) \<Rightarrow> Return ([], Some err)
      | Return (Inr mT) \<Rightarrow> getMsgs_loop b ks (entries @ [mT]))"

definition getMsgs :: "bucket \<Rightarrow> (Provider list \<times> error option) outcome" where
  "getMsgs b = getMsgs_loop b (map fst (nodes b)) []"

subsection \<open>impl\<close>

text \<open>
  The result of \<open>Sessions\<close> and \<open>Retained\<close> is a pointer to a field of \<open>impl\<close>, of
  \<open>New\<close> and \<open>Get\<close> a session: \<open>True\<close> stands for the object, \<open>False\<close> for nil.
\<close>

definition Sessions :: "impl \<Rightarrow> bool \<times> error option" where
  "Sessions p = (if done_closed p then (False, Some ErrNotOpen) else (True, None))"

definition Retained :: "impl \<Rightarrow> bool \<times> error option" where
  "Retained p = (if done_closed p then (False, Some ErrNotOpen) else (True, None))"

text \<open>
  \<open>Shutdown\<close>, run alone: it closes \<open>done\<close>, waits for \<open>wgTx\<close> (no call in the
  sources adds to it, so its count is 0 and \<open>Wait\<close> returns at once), closes the database
  and sets the handle to nil. \<open>closeErr\<close> is what \<open>db.Close()\<close> returns.
\<close>

definition Shutdown :: "error option \<Rightarrow> impl \<Rightarrow> (error option \<times> impl) outcome" where
  "Shutdown closeErr p =
     (if done_closed p then Return (Some ErrNotOpen, p)
      else (case db p of
              None \<Rightarrow> Panic
            | Some tx \<Rightarrow> Return (closeErr, p\<lparr>done_closed := True, db := None\<rparr>)))"

subsection \<open>sessions\<close>

text \<open>The two lookups every call on a session starts with.\<close>

definition session_bucket :: "bucket \<Rightarrow> key \<Rightarrow> error + (bucket \<times> bucket)" where
  "session_bucket tx sid =
     (case bolt_Bucket tx bucketSessions of
        None \<Rightarrow> Inl ErrNotFound
      | Some sesBucket \<Rightarrow>
          (case bolt_Bucket sesBucket sid of
             None \<Rightarrow> Inl ErrNotFound
           | Some sBucket \<Rightarrow> Inr (sesBucket, sBucket)))"

text \<open>Storing a changed session bucket back on the way out of the transaction.\<close>

definition store_session :: "bucket \<Rightarrow> bucket \<Rightarrow> key \<Rightarrow> bucket \<Rightarrow> bucket" where
  "store_session tx sesBucket sid sBucket =
     set_sub tx bucketSessions (set_sub sesBucket sid sBucket)"

definition sessions_New :: "impl \<Rightarrow> key \<Rightarrow> ((key option \<times> error option) \<times> impl) outcome" where
  "sessions_New s sid =
     (if done_closed s then Return ((None, Some ErrNotOpen), s)
      else (case Update s (\<lambda>tx.
                    case bolt_CreateBucketIfNotExists tx bucketSessions of
                      Inl err \<Rightarrow> Return (Inl err)
                    | Inr (tx1, sesBucket) \<Rightarrow>
                        (case bolt_CreateBucket sesBucket sid of
                           Inl err \<Rightarrow> Return (Inl err)
                         | Inr sesBucket' \<Rightarrow>
                             Return (Inr (set_sub tx1 bucketSessions sesBucket')))) of
              Panic \<Rightarrow> Panic
            | Return (err, s') \<Rightarrow>
                (if err \<noteq> None \<and> err = Some ErrBucketExists
                 then Return ((None, Some ErrAlreadyExists), s')
                 else Return ((Some sid, None), s'))))"

definition sessions_Get :: "impl \<Rightarrow> key \<Rightarrow> ((key option \<times> error option) \<times> impl) outcome" where
  "sessions_Get s sid =
     (if done_closed s then Return ((None, Some ErrNotOpen), s)
      else (case View s (\<lambda>tx.
                    case session_bucket tx sid of
                      Inl err \<Rightarrow> Return (Some err)
                    | Inr (sesBucket, buck) \<Rightarrow> Return None) of
              Panic \<Rightarrow> Panic
            | Return (Some err) \<Rightarrow> Return ((None, Some err), s)
            | Return None \<Rightarrow> Return ((Some sid, None), s)))"

definition sessions_GetAll :: "impl \<Rightarrow> ((key list \<times> error option) \<times> impl) outcome" where
  "sessions_GetAll s =
     (if done_closed s then Return (([], Some ErrNotOpen), s)
      else (case View s (\<lambda>tx.
                    case bolt_Bucket tx bucketSessions of
                      None \<Rightarrow> Return ([], Some ErrNotFound)
                    | Some sesBucket \<Rightarrow>
                        Return (filter (\<lambda>k. bolt_Bucket sesBucket k \<noteq> None)
                                  (map fst (nodes sesBucket)), None)) of
              Panic \<Rightarrow> Panic
            | Return (res, err) \<Rightarrow> Return ((res, err), s)))"

definition sessions_Delete :: "impl \<Rightarrow> key \<Rightarrow> (error option \<times> impl) outcome" where
  "sessions_Delete s sid =
     (if done_closed s then Return (Some ErrNotOpen, s)
      else (case Update s (\<lambda>tx.
                    case bolt_Bucket tx bucketSessions of
                      None \<Rightarrow> Return (Inl ErrNotFound)
                    | Some sesBucket \<Rightarrow>
                        (case bolt_DeleteBucket sesBucket sid of
                           Inl err \<Rightarrow> Return (Inl err)
                         | Inr sesBucket' \<Rightarrow>
                             Return (Inr (set_sub tx bucketSessions sesBucket')))) of
              Panic \<Rightarrow> Panic
            | Return (Some err, s') \<Rightarrow> Return (Some ErrNotFound, s')
            | Return (None, s') \<Rightarrow> Return (None, s')))"

subsection \<open>session\<close>

definition session_Subscriptions :: "impl \<Rightarrow> key \<Rightarrow> bool \<times> error option" where
  "session_Subscriptions s sid = (if done_closed s then (False, Some ErrNotOpen) else (True, None))"

definition session_Messages :: "impl \<Rightarrow> key \<Rightarrow> bool \<times> error option" where
  "session_Messages s sid = (if done_closed s then (False, Some ErrNotOpen) else (True, None))"

definition session_ID :: "impl \<Rightarrow> key \<Rightarrow> key \<times> error option" where
  "session_ID s sid = (if done_closed s then ([], Some ErrNotOpen) else (sid, None))"

subsection \<open>subscriptions\<close>

text \<open>
  \<open>message.TopicsQoS\<close> is a Go map from topic to QoS. \<open>Add\<close> ranges over it in an
  order of Go's choosing; the model takes the pairs in that order.
\<close>

type_synonym TopicsQoS = "byte list \<rightharpoonup> byte"

fun Add_loop :: "bucket \<Rightarrow> (byte list \<times> byte) list \<Rightarrow> error + bucket" where
  "Add_loop bucket [] = Inr bucket"
| "Add_loop bucket ((t, q) # subs) =
     (case bolt_NextSequence bucket of
        (n, b1) \<Rightarrow>
          (case bolt_CreateBucket b1 (itob64 n) of
             Inl err \<Rightarrow> Inl err
           | Inr b2 \<Rightarrow>
               (case bolt_Put (MkBucket 0 []) (bytes_of ''topic'') t of
                  Inl err \<Rightarrow> Inl err
                | Inr pb1 \<Rightarrow>
                    (case bolt_Put pb1 (bytes_of ''qos'') [q] of
                       Inl err \<Rightarrow> Inl err
                     | Inr pb2 \<Rightarrow> Add_loop (set_sub b2 (itob64 n) pb2) subs))))"

definition subscriptions_Add ::
  "impl \<Rightarrow> key \<Rightarrow> (byte list \<times> byte) list \<Rightarrow> (error option \<times> impl) outcome" where
  "subscriptions_Add s sid subs =
     (if done_closed s then Return (Some ErrNotOpen, s)
      else Update s (\<lambda>tx.
             case session_bucket tx sid of
               Inl err \<Rightarrow> Return (Inl err)
             | Inr (sesBucket, sBucket) \<Rightarrow>
                 (case bolt_CreateBucketIfNotExists sBucket bucketSubscriptions of
                    Inl err \<Rightarrow> Return (Inl err)
                  | Inr (sBucket1, bucket) \<Rightarrow>
                      (case Add_loop bucket subs of
                         Inl err \<Rightarrow> Return (Inl err)
                       | Inr bucket' \<Rightarrow>
                           Return (Inr (store_session tx sesBucket sid
                                          (set_sub sBucket1 bucketSubscriptions bucket')))))))"

text \<open>
  \<open>Get\<close>. The innermost callback reads \<open>topic\<close> and \<open>qos\<close> of one subscription
  (\<open>v[0]\<close> of an empty value panics) and never returns an error. The cursor loop goes
  through all the keys of the subscriptions bucket, storing one pair each (a key that is
  not a bucket gives a nil \<open>subBuck\<close>, and the call on it panics). The outer \<open>ForEach\<close>
  runs that whole loop once for every key of the same bucket, and its callback does not
  use its arguments.
\<close>

fun Get_fields :: "(key \<times> node) list \<Rightarrow> byte list \<times> byte \<Rightarrow> (byte list \<times> byte) outcome" where
  "Get_fields [] tq = Return tq"
| "Get_fields ((name, n) # kvs) (t, q) =
     (if name = bytes_of ''topic'' then Get_fields kvs (node_value n, q)
      else if name = bytes_of ''qos'' then
        (case node_value n of
           [] \<Rightarrow> Panic
         | v0 # _ \<Rightarrow> Get_fields kvs (t, v0))
      else Get_fields kvs (t, q))"

fun Get_cursor :: "bucket \<Rightarrow> key list \<Rightarrow> TopicsQoS \<Rightarrow> TopicsQoS outcome" where
  "Get_cursor bucket [] res = Return res"
| "Get_cursor bucket (k # ks) res =
     (case bolt_Bucket bucket k of
        None \<Rightarrow> Panic
      | Some subBuck \<Rightarrow>
          (case Get_fields (nodes subBuck) ([], 0) of
             Panic \<Rightarrow> Panic
           | Return (t, q) \<Rightarrow> Get_cursor bucket ks (res(t \<mapsto> q))))"

fun Get_ForEach :: "bucket \<Rightarrow> (key \<times> node) list \<Rightarrow> TopicsQoS \<Rightarrow> TopicsQoS outcome" where
  "Get_ForEach bucket [] res = Return res"
| "Get_ForEach bucket (kv # kvs) res =
     (case Get_cursor bucket (map fst (nodes bucket)) res of
        Panic \<Rightarrow> Panic
      | Return res' \<Rightarrow> Get_ForEach bucket kvs res')"

definition subscriptions_Get ::
  "impl \<Rightarrow> key \<Rightarrow> (TopicsQoS option \<times> error option) outcome" where
  "subscriptions_Get s sid =
     (if done_closed s then Return (None, Some ErrNotOpen)
      else (case View s (\<lambda>tx.
                    case session_bucket tx sid of
                      Inl err \<Rightarrow> Return (Map.empty, Some err)
                    | Inr (sesBucket, sBucket) \<Rightarrow>
                        (case bolt_Bucket sBucket bucketSubscriptions of
                           None \<Rightarrow> Return (Map.empty, Some ErrNotFound)
                         | Some bucket \<Rightarrow>
                             (case Get_ForEach bucket (nodes bucket) Map.empty of
                                Panic \<Rightarrow> Panic
                              | Return res \<Rightarrow> Return (res, None)))) of
              Panic \<Rightarrow> Panic
            | Return (res, Some err) \<Rightarrow> Return (None, Some err)
            | Return (res, None) \<Rightarrow> Return (Some res, None)))"

text \<open>
  The straightforward version the spec asks implementers to write instead: one pass of
  the cursor over the subscription entries, no enclosing \<open>ForEach\<close>.
\<close>

definition subscriptions_Get_single_pass ::
  "impl \<Rightarrow> key \<Rightarrow> (TopicsQoS option \<times> error option) outcome" where
  "subscriptions_Get_single_pass s sid =
     (if done_closed s then Return (None, Some ErrNotOpen)
      else (case View s (\<lambda>tx.
                    case session_bucket tx sid of
                      Inl err \<Rightarrow> Return (Map.empty, Some err)
                    | Inr (sesBucket, sBucket) \<Rightarrow>
                        (case bolt_Bucket sBucket bucketSubscriptions of
                           None \<Rightarrow> Return (Map.empty, Some ErrNotFound)
                         | Some bucket \<Rightarrow>
                             (case Get_cursor bucket (map fst (nodes bucket)) Map.empty of
                                Panic \<Rightarrow> Panic
                              | Return res \<Rightarrow> Return (res, None)))) of
              Panic \<Rightarrow> Panic
            | Return (res, Some err) \<Rightarrow> Return (None, Some err)
            | Return (res, None) \<Rightarrow> Return (Some res, None)))"

definition subscriptions_Delete :: "impl \<Rightarrow> key \<Rightarrow> (error option \<times> impl) outcome" where
  "subscriptions_Delete s sid =
     (if done_closed s then Return (Some ErrNotOpen, s)
      else Update s (\<lambda>tx.
             case session_bucket tx sid of
               Inl err \<Rightarrow> Return (Inl err)
             | Inr (sesBucket, sBucket) \<Rightarrow>
                 (case bolt_DeleteBucket sBucket bucketSubscriptions of
                    Inl err \<Rightarrow> Return (Inl err)
                  | Inr sBucket' \<Rightarrow> Return (Inr (store_session tx sesBucket sid sBucket')))))"

subsection \<open>messages\<close>

text \<open>The loop \<open>Store\<close> (of \<open>messages\<close> and of \<open>retained\<close>) runs over the messages.\<close>

fun Store_loop :: "bucket \<Rightarrow> Provider list \<Rightarrow> error + bucket" where
  "Store_loop dirBuck [] = Inr dirBuck"
| "Store_loop dirBuck (m # msg) =
     (case bolt_NextSequence dirBuck of
        (n, b1) \<Rightarrow>
          (case bolt_CreateBucket b1 (itob64 n) of
             Inl err \<Rightarrow> Inl err
           | Inr b2 \<Rightarrow>
               (case putMsg (MkBucket 0 []) m of
                  Inl err \<Rightarrow> Inl err
                | Inr pb \<Rightarrow> Store_loop (set_sub b2 (itob64 n) pb) msg)))"

definition messages_Store ::
  "impl \<Rightarrow> key \<Rightarrow> key \<Rightarrow> Provider list \<Rightarrow> (error option \<times> impl) outcome" where
  "messages_Store s sid dir msg =
     (if done_closed s then Return (Some ErrNotOpen, s)
      else Update s (\<lambda>tx.
             case session_bucket tx sid of
               Inl err \<Rightarrow> Return (Inl err)
             | Inr (sesBucket, sBucket) \<Rightarrow>
                 (case bolt_CreateBucketIfNotExists sBucket bucketMessages of
                    Inl err \<Rightarrow> Return (Inl err)
                  | Inr (sBucket1, bucket) \<Rightarrow>
                      (case bolt_CreateBucketIfNotExists bucket dir of
                         Inl err \<Rightarrow> Return (Inl err)
                       | Inr (bucket1, dirBuck) \<Rightarrow>
                           (case Store_loop dirBuck msg of
                              Inl err \<Rightarrow> Return (Inl err)
                            | Inr dirBuck' \<Rightarrow>
                                Return (Inr (store_session tx sesBucket sid
                                  (set_sub sBucket1 bucketMessages
                                     (set_sub bucket1 dir dirBuck')))))))))"

record SessionMessages =
  In_Messages :: "Provider list"
  Out_Messages :: "Provider list"

text \<open>
  \<open>Load\<close> assigns the first result of \<open>getMsgs\<close> and drops the second, the error,
  for each direction.
\<close>

definition Load_dir :: "bucket \<Rightarrow> key \<Rightarrow> Provider list outcome" where
  "Load_dir msgBuck dir =
     (case bolt_Bucket msgBuck dir of
        None \<Rightarrow> Return []
      | Some dirBuck \<Rightarrow>
          (case getMsgs dirBuck of
             Panic \<Rightarrow> Panic
           | Return (entries, err) \<Rightarrow> Return entries))"

definition messages_Load ::
  "impl \<Rightarrow> key \<Rightarrow> (SessionMessages \<times> error option) outcome" where
  "messages_Load s sid =
     (if done_closed s then Return (\<lparr>In_Messages = [], Out_Messages = []\<rparr>, Some ErrNotOpen)
      else View s (\<lambda>tx.
             case session_bucket tx sid of
               Inl err \<Rightarrow> Return (\<lparr>In_Messages = [], Out_Messages = []\<rparr>, Some err)
             | Inr (sesBucket, sBucket) \<Rightarrow>
                 (case bolt_Bucket sBucket bucketMessages of
                    None \<Rightarrow>
                      Return (\<lparr>In_Messages = [], Out_Messages = []\<rparr>, Some ErrNotFound)
                  | Some msgBuck \<Rightarrow>
                      (case Load_dir msgBuck (bytes_of ''in'') of
                         Panic \<Rightarrow> Panic
                       | Return i \<Rightarrow>
                           (case Load_dir msgBuck (bytes_of ''out'') of
                              Panic \<Rightarrow> Panic
                            | Return out \<Rightarrow>
                                Return (\<lparr>In_Messages = i, Out_Messages = out\<rparr>, None))))))"

definition messages_Delete :: "impl \<Rightarrow> key \<Rightarrow> (error option \<times> impl) outcome" where
  "messages_Delete s sid =
     (if done_closed s then Return (Some ErrNotOpen, s)
      else Update s (\<lambda>tx.
             case session_bucket tx sid of
               Inl err \<Rightarrow> Return (Inl err)
             | Inr (sesBucket, sBucket) \<Rightarrow>
                 (case bolt_DeleteBucket sBucket bucketMessages of
                    Inl err \<Rightarrow> Return (Inl err)
                  | Inr sBucket' \<Rightarrow> Return (Inr (store_session tx sesBucket sid sBucket')))))"

subsection \<open>retained\<close>

definition retained_Load :: "impl \<Rightarrow> (Provider list \<times> error option) outcome" where
  "retained_Load r =
     (if done_closed r then Return ([], Some ErrNotOpen)
      else View r (\<lambda>tx.
             case bolt_Bucket tx bucketRetained of
               None \<Rightarrow> Return ([], Some ErrNotFound)
             | Some bucket \<Rightarrow> getMsgs bucket))"

definition retained_Store :: "impl \<Rightarrow> Provider list \<Rightarrow> (error option \<times> impl) outcome" where
  "retained_Store r msg =
     (if done_closed r then Return (Some ErrNotOpen, r)
      else Update r (\<lambda>tx.
             case bolt_CreateBucketIfNotExists tx bucketRetained of
               Inl err \<Rightarrow> Return (Inl err)
             | Inr (tx1, bucket) \<Rightarrow>
                 (case Store_loop bucket msg of
                    Inl err \<Rightarrow> Return (Inl err)
                  | Inr bucket' \<Rightarrow> Return (Inr (set_sub tx1 bucketRetained bucket')))))"

definition retained_Delete :: "impl \<Rightarrow> (error option \<times> impl) outcome" where
  "retained_Delete r =
     (if done_closed r then Return (Some ErrNotOpen, r)
      else (case Update r (\<lambda>tx.
                    case bolt_DeleteBucket tx bucketRetained of
                      Inl err \<Rightarrow> Return (Inl err)
                    | Inr tx' \<Rightarrow> Return (Inr tx')) of
              Panic \<Rightarrow> Panic
            | Return (err, r') \<Rightarrow>
                Return (if err = Some ErrBucketNotFound then Some ErrNotFound else err, r')))"

subsection \<open>The public operations\<close>

text \<open>
  Every public operation of the boltdb backend, with its arguments, and the error it
  returns together with the state it leaves.
\<close>

datatype op =
    OpSessions
  | OpRetained
  | OpShutdown "error option"
  | OpSessionsNew key
  | OpSessionsGet key
  | OpSessionsGetAll
  | OpSessionsDelete key
  | OpSessionSubscriptions key
  | OpSessionMessages key
  | OpSessionID key
  | OpSubscriptionsAdd key "(byte list \<times> byte) list"
  | OpSubscriptionsGet key
  | OpSubscriptionsDelete key
  | OpMessagesStore key key "Provider list"
  | OpMessagesLoad key
  | OpMessagesDelete key
  | OpRetainedLoad
  | OpRetainedStore "Provider list"
  | OpRetainedDelete

definition reading :: "impl \<Rightarrow> ('r \<times> error option) outcome \<Rightarrow> (error option \<times> impl) outcome" where
  "reading s r = (case r of Panic \<Rightarrow> Panic | Return (res, err) \<Rightarrow> Return (err, s))"

definition writing :: "(('r \<times> error option) \<times> impl) outcome \<Rightarrow> (error option \<times> impl) outcome" where
  "writing r = (case r of Panic \<Rightarrow> Panic | Return ((res, err), s') \<Rightarrow> Return (err, s'))"

fun exec :: "op \<Rightarrow> impl \<Rightarrow> (error option \<times> impl) outcome" where
  "exec OpSessions s = Return (snd (Sessions s), s)"
| "exec OpRetained s = Return (snd (Retained s), s)"
| "exec (OpShutdown closeErr) s = Shutdown closeErr s"
| "exec (OpSessionsNew sid) s = writing (sessions_New s sid)"
| "exec (OpSessionsGet sid) s = writing (sessions_Get s sid)"
| "exec OpSessionsGetAll s = writing (sessions_GetAll s)"
| "exec (OpSessionsDelete sid) s = sessions_Delete s sid"
| "exec (OpSessionSubscriptions sid) s = Return (snd (session_Subscriptions s sid), s)"
| "exec (OpSessionMessages sid) s = Return (snd (session_Messages s sid), s)"
| "exec (OpSessionID sid) s = Return (snd (session_ID s sid), s)"
| "exec (OpSubscriptionsAdd sid subs) s = subscriptions_Add s sid subs"
| "exec (OpSubscriptionsGet sid) s = reading s (subscriptions_Get s sid)"
| "exec (OpSubscriptionsDelete sid) s = subscriptions_Delete s sid"
| "exec (OpMessagesStore sid dir msg) s = messages_Store s sid dir msg"
| "exec (OpMessagesLoad sid) s = reading s (messages_Load s sid)"
| "exec (OpMessagesDelete sid) s = messages_Delete s sid"
| "exec OpRetainedLoad s = reading s (retained_Load s)"
| "exec (OpRetainedStore msg) s = retained_Store s msg"
| "exec OpRetainedDelete s = retained_Delete s"

text \<open>
  A run of operations one after the other, with the errors they return; \<open>None\<close> when
  one of them panics.
\<close>

fun run :: "op list \<Rightarrow> impl \<Rightarrow> (error option list \<times> impl) option" where
  "run [] s = Some ([], s)"
| "run (x # xs) s =
     (case exec x s of
        Panic \<Rightarrow> None
      | Return (err, s') \<Rightarrow>
          (case run xs s' of
             None \<Rightarrow> None
           | Some (errs, s'') \<Rightarrow> Some (err # errs, s'')))"

section \<open>The mem backend\<close>

text \<open>
  Modelled from the spec: what the objects \<open>sessions\<close>, \<open>retained\<close>, \<open>session\<close>,
  \<open>subscriptions\<close> and \<open>messages\<close> of the in-memory backend hold is not among the
  sources. Going by the store contract, a session has its subscriptions (topic to QoS)
  and its queued messages, in insertion order for each direction.
\<close>

record mem_session =
  mem_subs :: "(byte list \<times> byte) list"
  mem_in :: "Provider list"
  mem_out :: "Provider list"

text \<open>
  Modelled from the spec: of the struct \<open>impl\<close> of the in-memory backend the sources give
  the status (whether \<open>done\<close> is closed) and the four operations on the provider; the
  sessions by identifier and the retained messages are the state its derived objects
  work on, under the store contract.
\<close>

record mem_impl =
  status_done_closed :: bool
  mem_sessions :: "(key \<times> mem_session) list"
  mem_retained :: "Provider list"

definition mem_New :: mem_impl where
  "mem_New = \<lparr>status_done_closed = False, mem_sessions = [], mem_retained = []\<rparr>"

text \<open>The operations on the provider, as in the sources.\<close>

definition mem_System :: "mem_impl \<Rightarrow> bool \<times> error option" where
  "mem_System p = (if status_done_closed p then (False, Some ErrNotOpen) else (True, None))"

definition mem_Sessions :: "mem_impl \<Rightarrow> bool \<times> error option" where
  "mem_Sessions p = (if status_done_closed p then (False, Some ErrNotOpen) else (True, None))"

definition mem_Retained :: "mem_impl \<Rightarrow> bool \<times> error option" where
  "mem_Retained p = (if status_done_closed p then (False, Some ErrNotOpen) else (True, None))"

definition mem_Shutdown :: "mem_impl \<Rightarrow> error option \<times> mem_impl" where
  "mem_Shutdown p =
     (if status_done_closed p then (Some ErrNotOpen, p)
      else (None, p\<lparr>status_done_closed := True\<rparr>))"

text \<open>
  Modelled from the spec: the operations of the objects derived from the in-memory
  provider are not among the sources. The store contract gives them for every backend:
  \<open>Sessions{New, Get, GetAll, Delete}\<close>, \<open>Session{Subscriptions, Messages, ID}\<close>,
  \<open>Subscriptions{Add, Get, Delete}\<close>, \<open>Messages{Store, Load, Delete}\<close> and
  \<open>Retained{Load, Store, Delete}\<close>. The closed signal is checked at the start of every
  public operation, which fails with \<open>ErrNotOpen\<close> if the store is already closed, and
  the in-memory backend needs only that check, having no resource to release. Past the
  check each operation is the plain one on the keyspace: a session that exists already
  is \<open>ErrAlreadyExists\<close>, one that does not is \<open>ErrNotFound\<close>, deleting a session removes
  its subscriptions and messages, and stored messages keep their insertion order for
  each direction.
\<close>

definition mem_put :: "key \<Rightarrow> 'v \<Rightarrow> (key \<times> 'v) list \<Rightarrow> (key \<times> 'v) list" where
  "mem_put k v kvs =
     (if map_of kvs k = None then kvs @ [(k, v)]
      else map (\<lambda>kv. if fst kv = k then (k, v) else kv) kvs)"

definition mem_del :: "key \<Rightarrow> (key \<times> 'v) list \<Rightarrow> (key \<times> 'v) list" where
  "mem_del k kvs = filter (\<lambda>kv. fst kv \<noteq> k) kvs"

definition mem_update_session ::
  "mem_impl \<Rightarrow> key \<Rightarrow> (mem_session \<Rightarrow> mem_session) \<Rightarrow> error option \<times> mem_impl" where
  "mem_update_session p sid f =
     (if status_done_closed p then (Some ErrNotOpen, p)
      else (case map_of (mem_sessions p) sid of
              None \<Rightarrow> (Some ErrNotFound, p)
            | Some ses \<Rightarrow> (None, p\<lparr>mem_sessions := mem_put sid (f ses) (mem_sessions p)\<rparr>)))"

definition mem_sessions_New :: "mem_impl \<Rightarrow> key \<Rightarrow> (key option \<times> error option) \<times> mem_impl" where
  "mem_sessions_New p sid =
     (if status_done_closed p then ((None, Some ErrNotOpen), p)
      else (case map_of (mem_sessions p) sid of
              Some ses \<Rightarrow> ((None, Some ErrAlreadyExists), p)
            | None \<Rightarrow>
                ((Some sid, None),
                 p\<lparr>mem_sessions := mem_sessions p
                      @ [(sid, \<lparr>mem_subs = [], mem_in = [], mem_out = []\<rparr>)]\<rparr>)))"

definition mem_sessions_Get :: "mem_impl \<Rightarrow> key \<Rightarrow> key option \<times> error option" where
  "mem_sessions_Get p sid =
     (if status_done_closed p then (None, Some ErrNotOpen)
      else (case map_of (mem_sessions p) sid of
              None \<Rightarrow> (None, Some ErrNotFound)
            | Some ses \<Rightarrow> (Some sid, None)))"

definition mem_sessions_GetAll :: "mem_impl \<Rightarrow> key list \<times> error option" where
  "mem_sessions_GetAll p =
     (if status_done_closed p then ([], Some ErrNotOpen)
      else (map fst (mem_sessions p), None))"

definition mem_sessions_Delete :: "mem_impl \<Rightarrow> key \<Rightarrow> error option \<times> mem_impl" where
  "mem_sessions_Delete p sid =
     (if status_done_closed p then (Some ErrNotOpen, p)
      else (case map_of (mem_sessions p) sid of
              None \<Rightarrow> (Some ErrNotFound, p)
            | Some ses \<Rightarrow> (None, p\<lparr>mem_sessions := mem_del sid (mem_sessions p)\<rparr>)))"

definition mem_session_Subscriptions :: "mem_impl \<Rightarrow> key \<Rightarrow> bool \<times> error option" where
  "mem_session_Subscriptions p sid =
     (if status_done_closed p then (False, Some ErrNotOpen) else (True, None))"

definition mem_session_Messages :: "mem_impl \<Rightarrow> key \<Rightarrow> bool \<times> error option" where
  "mem_session_Messages p sid =
     (if status_done_closed p then (False, Some ErrNotOpen) else (True, None))"

definition mem_session_ID :: "mem_impl \<Rightarrow> key \<Rightarrow> key \<times> error option" where
  "mem_session_ID p sid = (if status_done_closed p then ([], Some ErrNotOpen) else (sid, None))"

definition mem_subscriptions_Add ::
  "mem_impl \<Rightarrow> key \<Rightarrow> (byte list \<times> byte) list \<Rightarrow> error option \<times> mem_impl" where
  "mem_subscriptions_Add p sid subs =
     mem_update_session p sid
       (\<lambda>ses. ses\<lparr>mem_subs := fold (\<lambda>tq. mem_put (fst tq) (snd tq)) subs (mem_subs ses)\<rparr>)"

definition mem_subscriptions_Get ::
  "mem_impl \<Rightarrow> key \<Rightarrow> (byte list \<times> byte) list \<times> error option" where
  "mem_subscriptions_Get p sid =
     (if status_done_closed p then ([], Some ErrNotOpen)
      else (case map_of (mem_sessions p) sid of
              None \<Rightarrow> ([], Some ErrNotFound)
            | Some ses \<Rightarrow> (mem_subs ses, None)))"

definition mem_subscriptions_Delete :: "mem_impl \<Rightarrow> key \<Rightarrow> error option \<times> mem_impl" where
  "mem_subscriptions_Delete p sid =
     mem_update_session p sid (\<lambda>ses. ses\<lparr>mem_subs := []\<rparr>)"

definition mem_messages_Store ::
  "mem_impl \<Rightarrow> key \<Rightarrow> key \<Rightarrow> Provider list \<Rightarrow> error option \<times> mem_impl" where
  "mem_messages_Store p sid dir msg =
     mem_update_session p sid
       (\<lambda>ses. if dir = bytes_of ''in'' then ses\<lparr>mem_in := mem_in ses @ msg\<rparr>
              else if dir = bytes_of ''out'' then ses\<lparr>mem_out := mem_out ses @ msg\<rparr>
              else ses)"

definition mem_messages_Load :: "mem_impl \<Rightarrow> key \<Rightarrow> SessionMessages \<times> error option" where
  "mem_messages_Load p sid =
     (if status_done_closed p
      then (\<lparr>In_Messages = [], Out_Messages = []\<rparr>, Some ErrNotOpen)
      else (case map_of (mem_sessions p) sid of
              None \<Rightarrow> (\<lparr>In_Messages = [], Out_Messages = []\<rparr>, Some ErrNotFound)
            | Some ses \<Rightarrow> (\<lparr>In_Messages = mem_in ses, Out_Messages = mem_out ses\<rparr>, None)))"

definition mem_messages_Delete :: "mem_impl \<Rightarrow> key \<Rightarrow> error option \<times> mem_impl" where
  "mem_messages_Delete p sid =
     mem_update_session p sid (\<lambda>ses. ses\<lparr>mem_in := [], mem_out := []\<rparr>)"

definition mem_retained_Load :: "mem_impl \<Rightarrow> Provider list \<times> error option" where
  "mem_retained_Load p =
     (if status_done_closed p then ([], Some ErrNotOpen) else (mem_retained p, None))"

definition mem_retained_Store :: "mem_impl \<Rightarrow> Provider list \<Rightarrow> error option \<times> mem_impl" where
  "mem_retained_Store p msg =
     (if status_done_closed p then (Some ErrNotOpen, p)
      else (None, p\<lparr>mem_retained := mem_retained p @ msg\<rparr>))"

definition mem_retained_Delete :: "mem_impl \<Rightarrow> error option \<times> mem_impl" where
  "mem_retained_Delete p =
     (if status_done_closed p then (Some ErrNotOpen, p)
      else (None, p\<lparr>mem_retained := []\<rparr>))"

text \<open>
  Every public operation of the in-memory backend, on the provider and on the objects
  derived from it, with the error it returns and the state it leaves.
\<close>

datatype mem_op =
    MemSystem
  | MemSessions
  | MemRetained
  | MemShutdown
  | MemSessionsNew key
  | MemSessionsGet key
  | MemSessionsGetAll
  | MemSessionsDelete key
  | MemSessionSubscriptions key
  | MemSessionMessages key
  | MemSessionID key
  | MemSubscriptionsAdd key "(byte list \<times> byte) list"
  | MemSubscriptionsGet key
  | MemSubscriptionsDelete key
  | MemMessagesStore key key "Provider list"
  | MemMessagesLoad key
  | MemMessagesDelete key
  | MemRetainedLoad
  | MemRetainedStore "Provider list"
  | MemRetainedDelete

fun mem_exec :: "mem_op \<Rightarrow> mem_impl \<Rightarrow> error option \<times> mem_impl" where
  "mem_exec MemSystem p = (snd (mem_System p), p)"
| "mem_exec MemSessions p = (snd (mem_Sessions p), p)"
| "mem_exec MemRetained p = (snd (mem_Retained p), p)"
| "mem_exec MemShutdown p = mem_Shutdown p"
| "mem_exec (MemSessionsNew sid) p =
     (case mem_sessions_New p sid of ((res, err), p') \<Rightarrow> (err, p'))"
| "mem_exec (MemSessionsGet sid) p = (snd (mem_sessions_Get p sid), p)"
| "mem_exec MemSessionsGetAll p = (snd (mem_sessions_GetAll p), p)"
| "mem_exec (MemSessionsDelete sid) p = mem_sessions_Delete p sid"
| "mem_exec (MemSessionSubscriptions sid) p = (snd (mem_session_Subscriptions p sid), p)"
| "mem_exec (MemSessionMessages sid) p = (snd (mem_session_Messages p sid), p)"
| "mem_exec (MemSessionID sid) p = (snd (mem_session_ID p sid), p)"
| "mem_exec (MemSubscriptionsAdd sid subs) p = mem_subscriptions_Add p sid subs"
| "mem_exec (MemSubscriptionsGet sid) p = (snd (mem_subscriptions_Get p sid), p)"
| "mem_exec (MemSubscriptionsDelete sid) p = mem_subscriptions_Delete p sid"
| "mem_exec (MemMessagesStore sid dir msg) p = mem_messages_Store p sid dir msg"
| "mem_exec (MemMessagesLoad sid) p = (snd (mem_messages_Load p sid), p)"
| "mem_exec (MemMessagesDelete sid) p = mem_messages_Delete p sid"
| "mem_exec MemRetainedLoad p = (snd (mem_retained_Load p), p)"
| "mem_exec (MemRetainedStore msg) p = mem_retained_Store p msg"
| "mem_exec MemRetainedDelete p = mem_retained_Delete p"

fun mem_run :: "mem_op list \<Rightarrow> mem_impl \<Rightarrow> error option list \<times> mem_impl" where
  "mem_run [] p = ([], p)"
| "mem_run (x # xs) p =
     (case mem_exec x p of
        (err, p') \<Rightarrow> (case mem_run xs p' of (errs, p'') \<Rightarrow> (err # errs, p'')))"

section \<open>Shutdown among goroutines\<close>

text \<open>
  The boltdb backend with several goroutines, one call each, a step being one statement
  of the source. Every operation on \<open>sessions\<close>, \<open>session\<close>, \<open>subscriptions\<close>,
  \<open>messages\<close> and \<open>retained\<close> is two steps: the \<open>select\<close> on \<open>done\<close>, then the call
  of \<open>db.Update\<close> or \<open>db.View\<close> on the handle; neither touches \<open>wgTx\<close>. \<open>Shutdown\<close>
  takes the lock, looks at \<open>done\<close>, closes it, waits until the count of \<open>wgTx\<close> is 0,
  closes the database and sets the handle to nil, and returns, unlocking.
\<close>

datatype op_pc =
    AtGate
  | AtTx
  | NotOpen
  | TxDone
  | TxOnReleased

datatype sd_pc =
    SdLock
  | SdGate
  | SdCloseDone
  | SdWait
  | SdCloseDB
  | SdReturned "error option"

record world =
  done_ch_closed :: bool
  db_released :: bool
  wg :: nat
  lock_held :: bool
  sd :: sd_pc
  ops :: "op_pc list"

text \<open>
  A transaction on the open database runs to its end (\<open>TxDone\<close>); the call on a handle
  that \<open>Shutdown\<close> has closed and set to nil is \<open>TxOnReleased\<close>.
\<close>

definition op_step :: "world \<Rightarrow> op_pc \<Rightarrow> op_pc option" where
  "op_step w pc =
     (case pc of
        AtGate \<Rightarrow> Some (if done_ch_closed w then NotOpen else AtTx)
      | AtTx \<Rightarrow> Some (if db_released w then TxOnReleased else TxDone)
      | NotOpen \<Rightarrow> None
      | TxDone \<Rightarrow> None
      | TxOnReleased \<Rightarrow> None)"

definition sd_step :: "world \<Rightarrow> world option" where
  "sd_step w =
     (case sd w of
        SdLock \<Rightarrow> if lock_held w then None else Some (w\<lparr>lock_held := True, sd := SdGate\<rparr>)
      | SdGate \<Rightarrow>
          Some (if done_ch_closed w
                then w\<lparr>lock_held := False, sd := SdReturned (Some ErrNotOpen)\<rparr>
                else w\<lparr>sd := SdCloseDone\<rparr>)
      | SdCloseDone \<Rightarrow> Some (w\<lparr>done_ch_closed := True, sd := SdWait\<rparr>)
      | SdWait \<Rightarrow> if wg w = 0 then Some (w\<lparr>sd := SdCloseDB\<rparr>) else None
      | SdCloseDB \<Rightarrow>
          Some (w\<lparr>db_released := True, lock_held := False, sd := SdReturned None\<rparr>)
      | SdReturned e \<Rightarrow> None)"

text \<open>
  Goroutine 0 runs \<open>Shutdown\<close>, goroutine \<open>i + 1\<close> the \<open>i\<close>-th operation; a goroutine
  that is blocked or has returned takes no step.
\<close>

fun step :: "nat \<Rightarrow> world \<Rightarrow> world option" where
  "step 0 w = sd_step w"
| "step (Suc i) w =
     (if i < length (ops w)
      then (case op_step w (ops w ! i) of
              None \<Rightarrow> None
            | Some pc \<Rightarrow> Some (w\<lparr>ops := (ops w)[i := pc]\<rparr>))
      else None)"

fun schedule :: "nat list \<Rightarrow> world \<Rightarrow> world option" where
  "schedule [] w = Some w"
| "schedule (g # gs) w = (case step g w of None \<Rightarrow> None | Some w' \<Rightarrow> schedule gs w')"

definition init :: "nat \<Rightarrow> world" where
  "init n = \<lparr>done_ch_closed = False, db_released = False, wg = 0, lock_held = False,
              sd = SdLock, ops = replicate n AtGate\<rparr>"

section \<open>Facts about the codec\<close>

text \<open>The varint functions on a numeral bound, so that \<open>simp\<close> evaluates them.\<close>

lemma remLen_decode_numeral_Nil [simp]: "remLen_decode (numeral k) [] = None"
  by (simp add: numeral_eq_Suc)

lemma remLen_decode_numeral_Cons [simp]:
  "remLen_decode (numeral k) (b # bs) =
     (if b AND 0x80 = 0 then Some (unat b, 1)
      else (case remLen_decode (pred_numeral k) bs of
              None \<Rightarrow> None
            | Some (v, n) \<Rightarrow> Some (unat (b AND 0x7F) + 128 * v, Suc n)))"
  by (simp add: numeral_eq_Suc)

lemma remLen_encode_numeral [simp]:
  "remLen_encode (numeral k) x =
     (if x < 128 then [of_nat x]
      else (of_nat (x mod 128) OR 0x80) # remLen_encode (pred_numeral k) (x div 128))"
  by (simp add: numeral_eq_Suc)

lemmas codec_defs =
  header_decode_def header_encode_def header_bytes_def setType_def Size_def
  Type_Valid_def Type_DefaultFlags_def maxRemainingLength_def
  slice_from_def slice_def put_bytes_def Uint16_def PutUint16_def itob16_def Let_def

text \<open>A header that decodes without error lies within the buffer.\<close>

lemma header_decode_ok:
  assumes "header_decode h src = (hn, h1, None)"
  shows "0 \<le> remLen h1" and "hn + nat (remLen h1) \<le> length src"
  using assms
  by (auto simp: header_decode_def Let_def
      split: list.splits if_splits option.splits prod.splits)

lemma header_decode_returnCodes:
  "header_decode (h::SubAckMessage) src = (hn, h1, e) \<Longrightarrow> returnCodes h1 = returnCodes h"
  by (auto simp: header_decode_def Let_def
      split: list.splits if_splits option.splits prod.splits)

lemma Uint16_drop: "n + 2 \<le> length src \<Longrightarrow> \<exists>v. Uint16 (drop n src) = Return v"
  by (cases "drop n src"; cases "tl (drop n src)")
     (auto simp: Uint16_def dest: arg_cong[where f=length])

lemma list_all_drop: "list_all P xs \<Longrightarrow> list_all P (drop n xs)"
  by (auto simp: list_all_iff dest: in_set_dropD)

subsection \<open>Decoding a packet whose remaining length is too short\<close>

text \<open>
  Once the header has decoded, \<open>SubAckMessage.decode\<close> panics on every buffer whose
  declared remaining length is below 2: either \<open>Uint16\<close> indexes beyond the buffer, or
  \<open>l\<close> is negative and the slice bounds are inverted. \<open>PubRelMessage.decode\<close> panics
  whenever fewer than two bytes follow the header.
\<close>

lemma SubAck_decode_panics_below_2:
  assumes "header_decode msg src = (hn, m1, None)" and "remLen m1 < 2"
  shows "SubAck_decode msg src = Panic"
  using assms
  by (auto simp: SubAck_decode_def Let_def slice_def split: outcome.splits)

lemma PubRel_decode_panics_short:
  assumes "header_decode msg src = (hn, m1, None)" and "length src < hn + 2"
  shows "PubRel_decode msg src = Panic"
proof -
  have "length (drop hn src) < 2" using assms(2) by simp
  then have "Uint16 (drop hn src) = Panic"
    by (cases "drop hn src" rule: remdups_adj.cases) (simp_all add: Uint16_def)
  then show ?thesis
    using assms(1) by (simp add: PubRel_decode_def Let_def slice_from_def)
qed

text \<open>
  C1. The claim: every decode routine returns an \<open>(int, error)\<close> result on every buffer,
  truncated ones included, and never panics. The code at two well-formed headers whose
  remaining length is 0: a SUBACK \<open>[0x90, 0x00]\<close> and a PUBREL \<open>[0x62, 0x00]\<close>. Both
  decoders panic in \<open>binary.BigEndian.Uint16\<close>; a SUBACK with remaining length 0 and two
  more bytes in the buffer panics at the slice \<open>src[total : total+l]\<close> with \<open>l = -2\<close>.
\<close>

theorem decode_short_remaining_length_panics:
  "SubAck_decode NewSubAckMessage [0x90, 0x00] = Panic
   \<and> SubAck_decode NewSubAckMessage [0x90, 0x00, 0x00, 0x07] = Panic
   \<and> PubRel_decode NewPubRelMessage [0x62, 0x00] = Panic"
  by (simp add: SubAck_decode_def PubRel_decode_def NewSubAckMessage_def
      NewPubRelMessage_def codec_defs)

subsection \<open>Encoding PUBREL\<close>





lemma PubRel_Encode_short_buffer:
  assumes "length dst < 4"
  shows "PubRel_Encode (SetPacketID NewPubRelMessage v) dst
           = Return (dst, 4, Some ErrInsufficientBufferSize)"
  using assms
  by (simp add: PubRel_Encode_def PubRel_size_def NewPubRelMessage_def SetPacketID_def
      codec_defs)

subsection \<open>The packet identifier 0 on encoding\<close>

text \<open>
  PUBREL and SUBACK test the identifier first and write nothing when it is 0.
\<close>

lemma PubRel_preEncode_zero:
  "packetID msg = 0 \<Longrightarrow> PubRel_preEncode msg dst = Return (dst, 0, Some ErrPackedIDZero)"
  by (simp add: PubRel_preEncode_def)

lemma SubAck_preEncode_zero:
  "packetID msg = 0 \<Longrightarrow> SubAck_preEncode msg dst = Return (dst, 0, Some ErrPackedIDZero)"
  by (simp add: SubAck_preEncode_def)

text \<open>UNSUBACK has no such test: no call of its \<open>Encode\<close> returns \<open>ErrPackedIDZero\<close>.\<close>

lemma UnSubAck_Encode_never_ErrPackedIDZero:
  "UnSubAck_Encode msg dst \<noteq> Return (d, n, Some ErrPackedIDZero)"
  by (auto simp: UnSubAck_Encode_def header0_encode_def
      split: prod.splits option.splits outcome.splits if_splits)

text \<open>
  C3. The claim: encoding a message whose packet identifier is unset fails with the
  packet-ID-zero error, for UNSUBACK as for PUBREL and SUBACK, and 0 is never written as
  an identifier. The code on an UNSUBACK message built by the application (\<open>dirty\<close>)
  whose identifier was never set (the nil slice) and a destination of four bytes:
  \<open>Encode\<close> returns 4 and no error, having written \<open>0xB0, 0x02, 0x00, 0x00\<close>.
\<close>

theorem UnSubAck_Encode_unset_id_writes_zero:
  "UnSubAck_Encode
     \<lparr>mTypeFlags0 = 0xB0, remLen0 = 0, packetID0 = [], dirty = True, dBuf = []\<rparr>
     [0xFF, 0xFF, 0xFF, 0xFF]
   = Return ([0xB0, 0x02, 0x00, 0x00], 4, None)"
  by (simp add: UnSubAck_Encode_def UnSubAck_Len_def UnSubAck_msgLen_def
      SetRemainingLength_def header0_msgLen_def header0_bytes_def header0_encode_def
      put_bytes_def slice_def maxRemainingLength_def)

subsection \<open>SUBACK return codes\<close>

text \<open>
  C4. Let the header of \<open>src\<close> decode without error, with a remaining length of at
  least 2 (the packet identifier), into a message whose return codes so far are valid
  (none, for a fresh message). Then \<open>decode\<close> returns, and its error is nil exactly when
  every return-code byte of the packet is one of 0, 1, 2 and 0x80; otherwise the error is
  \<open>ErrInvalidReturnCode\<close>.
\<close>

theorem SubAck_decode_return_codes:
  assumes hd: "header_decode msg src = (hn, m1, None)"
    and len: "2 \<le> remLen m1"
    and old: "list_all IsValidFull (returnCodes msg)"
  shows "\<exists>m3 total. SubAck_decode msg src =
           Return (m3, total,
             if list_all (\<lambda>q. q \<in> {0, 1, 2, 0x80})
                  (take (nat (remLen m1) - 2) (drop (hn + 2) src))
             then None else Some ErrInvalidReturnCode)"
proof -
  from header_decode_ok[OF hd] have fits: "hn + nat (remLen m1) \<le> length src" by auto
  have rc: "returnCodes m1 = returnCodes msg"
    by (rule header_decode_returnCodes[OF hd])
  from len fits have "hn + 2 \<le> length src" by linarith
  then obtain v where v: "Uint16 (drop hn src) = Return v" using Uint16_drop by blast
  have sf: "slice_from src (int hn) = Return (drop hn src)"
    using fits by (simp add: slice_from_def)
  define qs where "qs = take (nat (remLen m1) - 2) (drop (hn + 2) src)"
  have sl: "slice src (int hn + 2) (remLen m1 + int hn) = Return qs"
    using len fits unfolding slice_def qs_def
    by (simp add: nat_diff_distrib nat_add_distrib)
  have z: "list_all IsValidFull (drop (length qs) (replicate n 0))" for n
    by (simp add: list_all_iff IsValidFull_def)
  have o: "list_all IsValidFull (drop (length qs) (returnCodes msg))"
    by (rule list_all_drop[OF old])
  have iv: "list_all (\<lambda>q. q \<in> {0, 1, 2, 0x80}) qs = list_all IsValidFull qs"
    by (simp add: IsValidFull_def list_all_iff)
  show ?thesis
    unfolding qs_def[symmetric] iv
    using hd v sf sl rc z o
    by (simp add: SubAck_decode_def Let_def)
qed

theorem SubAck_decode_return_codes_witness:
  "header_decode NewSubAckMessage [0x90, 0x04, 0x00, 0x07, 0x80, 0x01]
     = (2, NewSubAckMessage\<lparr>mTypeFlags := 0x90, remLen := 4\<rparr>, None)
   \<and> (2::int) \<le> remLen (NewSubAckMessage\<lparr>mTypeFlags := 0x90, remLen := 4\<rparr>)
   \<and> list_all IsValidFull (returnCodes NewSubAckMessage)
   \<and> (\<exists>m3 total. SubAck_decode NewSubAckMessage [0x90, 0x04, 0x00, 0x07, 0x80, 0x01]
         = Return (m3, total, None))
   \<and> header_decode NewSubAckMessage [0x90, 0x04, 0x00, 0x07, 0x03, 0x01]
     = (2, NewSubAckMessage\<lparr>mTypeFlags := 0x90, remLen := 4\<rparr>, None)
   \<and> (\<exists>m3 total. SubAck_decode NewSubAckMessage [0x90, 0x04, 0x00, 0x07, 0x03, 0x01]
         = Return (m3, total, Some ErrInvalidReturnCode))"
proof -
  let ?m1 = "NewSubAckMessage\<lparr>mTypeFlags := 0x90, remLen := 4\<rparr>"
  have h1: "header_decode NewSubAckMessage [0x90, 0x04, 0x00, 0x07, 0x80, 0x01]
              = (2, ?m1, None)"
    by (simp add: NewSubAckMessage_def codec_defs)
  have h1': "header_decode NewSubAckMessage [0x90, 0x04, 0x00, 0x07, 0x03, 0x01]
              = (2, ?m1, None)"
    by (simp add: NewSubAckMessage_def codec_defs)
  have h2: "2 \<le> remLen ?m1" by simp
  have h3: "list_all IsValidFull (returnCodes NewSubAckMessage)"
    by (simp add: NewSubAckMessage_def setType_def)
  show ?thesis
    using h1 h1' h2 h3
      SubAck_decode_return_codes [OF h1 h2 h3] SubAck_decode_return_codes [OF h1' h2 h3]
    by simp
qed

text \<open>
  C10. \<open>AddReturnCodes\<close> is not atomic: it appends the codes that precede the first
  invalid one and then returns \<open>ErrInvalidReturnCode\<close>; when every code is valid it
  appends them all, in order, and returns nil.
\<close>

theorem AddReturnCodes_appends_valid_prefix:
  "AddReturnCodes msg ret =
     (msg\<lparr>returnCodes := returnCodes msg @ takeWhile IsValidFull ret\<rparr>,
      if list_all IsValidFull ret then None else Some ErrInvalidReturnCode)"
  by (induction ret arbitrary: msg) auto

theorem AddReturnCodes_appends_valid_prefix_witness:
  "AddReturnCodes NewSubAckMessage [1, 0x80, 3, 2]
     = (NewSubAckMessage\<lparr>returnCodes := [1, 0x80]\<rparr>, Some ErrInvalidReturnCode)
   \<and> AddReturnCodes NewSubAckMessage [1, 0x80, 2]
     = (NewSubAckMessage\<lparr>returnCodes := [1, 0x80, 2]\<rparr>, None)"
  using AddReturnCodes_appends_valid_prefix [of NewSubAckMessage "[1, 0x80, 3, 2]"]
    AddReturnCodes_appends_valid_prefix [of NewSubAckMessage "[1, 0x80, 2]"]
  by (simp add: IsValidFull_def NewSubAckMessage_def setType_def)

section \<open>Facts about the persistence backends\<close>

lemmas bolt_defs =
  bytes_of_def bucketSessions_def bucketMessages_def bucketSubscriptions_def
  bucketRetained_def bolt_Bucket_def bolt_Get_def bolt_Put_def bolt_CreateBucket_def
  bolt_CreateBucketIfNotExists_def bolt_DeleteBucket_def bolt_NextSequence_def
  set_sub_def itob64_def node_value_def upt_rec Update_def View_def NewBoltDB_def
  session_bucket_def store_session_def

subsection \<open>Storing and loading queued messages\<close>

text \<open>
  Whatever \<open>putMsg\<close> stored for a PUBREL, \<open>getMsgs\<close> gives back the message as
  \<open>NewMessage\<close> constructed it: the callback has no case for it.
\<close>

lemma getMsgs_fields_PubRel: "getMsgs_fields kvs (PubRel h) = Return (PubRel h, None)"
  by (induction kvs) (auto simp: getMsgs_field_def)

text \<open>
  C5. The claim: \<open>Store\<close> followed by \<open>Load\<close> returns packets equal to the stored
  ones, packet identifier included. The code on a fresh database: after
  \<open>sessions.New("c1")\<close>, \<open>Store("out", [PUBREL with packet identifier 7])\<close> succeeds, and
  \<open>Load\<close> then returns, with a nil error, one outgoing PUBREL whose packet identifier
  is 0, the stored key \<open>id\<close> never having been read.
\<close>

theorem messages_Load_loses_PubRel_packetID:
  "\<exists>s1 s2.
      sessions_New (NewBoltDB (MkBucket 0 [])) (bytes_of ''c1'')
        = Return ((Some (bytes_of ''c1''), None), s1)
    \<and> messages_Store s1 (bytes_of ''c1'') (bytes_of ''out'')
          [PubRel (SetPacketID NewPubRelMessage 7)]
        = Return (None, s2)
    \<and> messages_Load s2 (bytes_of ''c1'')
        = Return (\<lparr>In_Messages = [], Out_Messages = [PubRel NewPubRelMessage]\<rparr>, None)
    \<and> packetID NewPubRelMessage = 0
    \<and> packetID (SetPacketID NewPubRelMessage 7) = 7"
proof -
  let ?c1 = "bytes_of ''c1''"
  let ?r1 = "MkBucket 0 [(bucketSessions, Sub (MkBucket 0 [(?c1, Sub (MkBucket 0 []))]))]"
  let ?r2 = "MkBucket 0 [(bucketSessions, Sub (MkBucket 0 [(?c1,
       Sub (MkBucket 0 [(bucketMessages, Sub (MkBucket 0 [(bytes_of ''out'',
         Sub (MkBucket 1 [(itob64 1, Sub (MkBucket 0
            [(bytes_of ''id'', Val [0, 7]), (bytes_of ''type'', Val [6])]))]))]))]))]))]"
  have 1: "sessions_New (NewBoltDB (MkBucket 0 [])) ?c1
             = Return ((Some ?c1, None), NewBoltDB ?r1)"
    by (simp add: sessions_New_def bolt_defs)
  have 2: "messages_Store (NewBoltDB ?r1) ?c1 (bytes_of ''out'')
             [PubRel (SetPacketID NewPubRelMessage 7)] = Return (None, NewBoltDB ?r2)"
    by (simp add: messages_Store_def putMsg_def Provider_Type_def Provider_PacketID_def
        SetPacketID_def NewPubRelMessage_def setType_def Type_DefaultFlags_def itob16_def
        bolt_defs)
  have 3: "messages_Load (NewBoltDB ?r2) ?c1
             = Return (\<lparr>In_Messages = [], Out_Messages = [PubRel NewPubRelMessage]\<rparr>, None)"
    by (simp add: messages_Load_def Load_dir_def getMsgs_def getMsgs_entry_def
        getMsgs_field_def NewMessage_def Type_Valid_def bolt_defs)
  have 4: "packetID NewPubRelMessage = 0 \<and> packetID (SetPacketID NewPubRelMessage 7) = 7"
    by (simp add: NewPubRelMessage_def setType_def SetPacketID_def)
  from 1 2 3 4 show ?thesis by blast
qed

subsection \<open>After Shutdown\<close>

text \<open>
  Every public operation looks at \<open>done\<close> first: on a provider whose channel is
  closed it returns \<open>ErrNotOpen\<close> and changes nothing.
\<close>

lemma exec_closed:
  assumes "done_closed s"
  shows "exec x s = Return (Some ErrNotOpen, s)"
  using assms
  by (cases x)
     (simp_all add: Sessions_def Retained_def Shutdown_def sessions_New_def sessions_Get_def
        sessions_GetAll_def sessions_Delete_def session_Subscriptions_def
        session_Messages_def session_ID_def subscriptions_Add_def subscriptions_Get_def
        subscriptions_Delete_def messages_Store_def messages_Load_def messages_Delete_def
        retained_Load_def retained_Store_def retained_Delete_def reading_def writing_def)

lemma run_closed:
  assumes "done_closed s"
  shows "run xs s = Some (replicate (length xs) (Some ErrNotOpen), s)"
  using assms by (induction xs) (simp_all add: exec_closed)

lemma Shutdown_closes:
  assumes "Shutdown closeErr p = Return (err, p')"
  shows "done_closed p'"
  using assms by (auto simp: Shutdown_def split: if_splits option.splits)

lemma mem_exec_closed:
  assumes "status_done_closed p"
  shows "mem_exec x p = (Some ErrNotOpen, p)"
  using assms
  by (cases x)
     (simp_all add: mem_System_def mem_Sessions_def mem_Retained_def mem_Shutdown_def
        mem_update_session_def mem_sessions_New_def mem_sessions_Get_def
        mem_sessions_GetAll_def mem_sessions_Delete_def mem_session_Subscriptions_def
        mem_session_Messages_def mem_session_ID_def mem_subscriptions_Add_def
        mem_subscriptions_Get_def mem_subscriptions_Delete_def mem_messages_Store_def
        mem_messages_Load_def mem_messages_Delete_def mem_retained_Load_def
        mem_retained_Store_def mem_retained_Delete_def)

lemma mem_run_closed:
  assumes "status_done_closed p"
  shows "mem_run xs p = (replicate (length xs) (Some ErrNotOpen), p)"
  using assms by (induction xs) (simp_all add: mem_exec_closed)

lemma mem_Shutdown_closes:
  assumes "mem_Shutdown p = (err, p')"
  shows "status_done_closed p'"
  using assms by (auto simp: mem_Shutdown_def split: if_splits)

text \<open>
  C6. Once \<open>Shutdown\<close> has returned nil, every run of public operations that follows,
  on the provider or on any object derived from it (sessions, retained, session,
  subscriptions, messages), a second \<open>Shutdown\<close> among them, returns \<open>ErrNotOpen\<close> from
  each operation and leaves the provider as it is; for the boltdb backend and for the
  mem backend.
\<close>

theorem after_Shutdown_ErrNotOpen:
  "(Shutdown closeErr p = Return (None, p') \<longrightarrow>
      run xs p' = Some (replicate (length xs) (Some ErrNotOpen), p'))
   \<and> (mem_Shutdown q = (None, q') \<longrightarrow>
      mem_run ys q' = (replicate (length ys) (Some ErrNotOpen), q'))"
  using run_closed[OF Shutdown_closes] mem_run_closed[OF mem_Shutdown_closes] by blast

theorem after_Shutdown_ErrNotOpen_witness:
  "Shutdown None (NewBoltDB (MkBucket 0 [])) = Return (None, \<lparr>done_closed = True, db = None\<rparr>)
   \<and> run [OpSessions, OpShutdown None, OpSessionsNew (bytes_of ''c1''),
           OpMessagesLoad (bytes_of ''c1''), OpRetainedStore []]
        \<lparr>done_closed = True, db = None\<rparr>
      = Some ([Some ErrNotOpen, Some ErrNotOpen, Some ErrNotOpen, Some ErrNotOpen,
               Some ErrNotOpen], \<lparr>done_closed = True, db = None\<rparr>)
   \<and> mem_Shutdown mem_New
      = (None, \<lparr>status_done_closed = True, mem_sessions = [], mem_retained = []\<rparr>)
   \<and> mem_run [MemSystem, MemShutdown, MemSessionsNew (bytes_of ''c1''),
               MemSubscriptionsGet (bytes_of ''c1''), MemMessagesLoad (bytes_of ''c1''),
               MemRetainedStore []]
        \<lparr>status_done_closed = True, mem_sessions = [], mem_retained = []\<rparr>
      = ([Some ErrNotOpen, Some ErrNotOpen, Some ErrNotOpen, Some ErrNotOpen,
          Some ErrNotOpen, Some ErrNotOpen],
         \<lparr>status_done_closed = True, mem_sessions = [], mem_retained = []\<rparr>)"
proof -
  have h1: "Shutdown None (NewBoltDB (MkBucket 0 []))
              = Return (None, \<lparr>done_closed = True, db = None\<rparr>)"
    by (simp add: Shutdown_def NewBoltDB_def)
  have h2: "mem_Shutdown mem_New
              = (None, \<lparr>status_done_closed = True, mem_sessions = [], mem_retained = []\<rparr>)"
    by (simp add: mem_Shutdown_def mem_New_def)
  show ?thesis
    using h1 h2
      after_Shutdown_ErrNotOpen
        [of None "NewBoltDB (MkBucket 0 [])" "\<lparr>done_closed = True, db = None\<rparr>"
            "[OpSessions, OpShutdown None, OpSessionsNew (bytes_of ''c1''),
              OpMessagesLoad (bytes_of ''c1''), OpRetainedStore []]"
            mem_New "\<lparr>status_done_closed = True, mem_sessions = [], mem_retained = []\<rparr>"
            "[MemSystem, MemShutdown, MemSessionsNew (bytes_of ''c1''),
              MemSubscriptionsGet (bytes_of ''c1''), MemMessagesLoad (bytes_of ''c1''),
              MemRetainedStore []]"]
    by simp
qed

subsection \<open>Errors that do not reach the caller\<close>

text \<open>
  \<open>sessions.New\<close> returns no error but \<open>ErrNotOpen\<close> and \<open>ErrAlreadyExists\<close>, and
  \<open>messages.Load\<close> none but \<open>ErrNotOpen\<close> and \<open>ErrNotFound\<close>, whatever fails inside.
\<close>

lemma sessions_New_errors:
  assumes "sessions_New s sid = Return ((r, Some e), s')"
  shows "e = ErrNotOpen \<or> e = ErrAlreadyExists"
  using assms
  by (auto simp: sessions_New_def split: if_splits outcome.splits prod.splits)

lemma messages_Load_errors:
  assumes "messages_Load s sid = Return (m, Some e)"
  shows "e = ErrNotOpen \<or> e = ErrNotFound"
  using assms
  by (auto simp: messages_Load_def View_def session_bucket_def
      split: if_splits option.splits sum.splits outcome.splits prod.splits)

text \<open>
  C7. The claim: \<open>sessions.New\<close> returns a non-nil error whenever the creation of the
  bucket fails, and \<open>messages.Load\<close> whenever a stored message cannot be reconstructed.
  The code: \<open>sessions.New("")\<close> on a fresh database, where \<open>CreateBucket\<close> fails with
  \<open>ErrBucketNameRequired\<close>, returns a session and a nil error; and \<open>messages.Load\<close> on a
  store whose incoming record has the type byte 0, where \<open>getMsgs\<close> fails with
  \<open>ErrInvalidMessageType\<close>, returns no messages and a nil error, whereas \<open>retained.Load\<close>
  on the same record under \<open>retained\<close> returns that error.
\<close>

theorem sessions_New_and_messages_Load_drop_errors:
  "bolt_CreateBucket (MkBucket 0 []) [] = Inl ErrBucketNameRequired
   \<and> sessions_New (NewBoltDB (MkBucket 0 [])) []
       = Return ((Some [], None), NewBoltDB (MkBucket 0 []))
   \<and> getMsgs (MkBucket 1 [(itob64 1, Sub (MkBucket 0 [(bytes_of ''type'', Val [0])]))])
       = Return ([], Some ErrInvalidMessageType)
   \<and> messages_Load
        (NewBoltDB (MkBucket 0 [(bucketSessions, Sub (MkBucket 0 [(bytes_of ''c1'',
           Sub (MkBucket 0 [(bucketMessages, Sub (MkBucket 0 [(bytes_of ''in'',
             Sub (MkBucket 1 [(itob64 1, Sub (MkBucket 0
               [(bytes_of ''type'', Val [0])]))]))]))]))]))]))
        (bytes_of ''c1'')
       = Return (\<lparr>In_Messages = [], Out_Messages = []\<rparr>, None)
   \<and> retained_Load
        (NewBoltDB (MkBucket 0 [(bucketRetained,
           Sub (MkBucket 1 [(itob64 1, Sub (MkBucket 0 [(bytes_of ''type'', Val [0])]))]))]))
       = Return ([], Some ErrInvalidMessageType)"
  by (simp add: sessions_New_def messages_Load_def retained_Load_def Load_dir_def
      getMsgs_def getMsgs_entry_def NewMessage_def Type_Valid_def bolt_defs)

subsection \<open>The wait group\<close>

text \<open>No step of any goroutine changes the count of \<open>wgTx\<close>: it is 0 throughout.\<close>

lemma step_wg: "step g w = Some w' \<Longrightarrow> wg w' = wg w"
  by (cases g)
     (auto simp: sd_step_def op_step_def split: sd_pc.splits if_splits option.splits)

lemma schedule_wg: "schedule gs w = Some w' \<Longrightarrow> wg w' = wg w"
  by (induction gs arbitrary: w) (auto split: option.splits dest: step_wg)

text \<open>
  C8. The claim: the counter is incremented before each transaction and decremented
  after, and \<open>Shutdown\<close> waits for it, so that in every interleaving all transactions
  complete before the database is released. The code with one operation beside
  \<open>Shutdown\<close>: the operation passes the \<open>select\<close> on \<open>done\<close>; \<open>Shutdown\<close> then runs from
  the lock to its return, \<open>Wait\<close> not blocking since the count is 0; the operation then
  calls the transaction on the released handle.
\<close>

theorem Shutdown_releases_db_before_pending_transaction:
  "schedule [Suc 0, 0, 0, 0, 0, 0, Suc 0] (init 1)
     = Some \<lparr>done_ch_closed = True, db_released = True, wg = 0, lock_held = False,
             sd = SdReturned None, ops = [TxOnReleased]\<rparr>"
  by (simp add: init_def sd_step_def op_step_def)

subsection \<open>The nested loop of subscriptions.Get\<close>

text \<open>
  The cursor loop either panics whatever the map it starts from, or adds the same
  bindings to whatever map it starts from.
\<close>

lemma Get_cursor_shape:
  "(\<forall>res. Get_cursor b ks res = Panic)
   \<or> (\<exists>m. \<forall>res. Get_cursor b ks res = Return (res ++ m))"
proof (induction ks)
  case Nil
  have "\<forall>res. Get_cursor b [] res = Return (res ++ Map.empty)" by simp
  then show ?case by blast
next
  case (Cons k ks)
  show ?case
  proof (cases "bolt_Bucket b k")
    case None
    then show ?thesis by simp
  next
    case (Some subBuck)
    show ?thesis
    proof (cases "Get_fields (nodes subBuck) ([], 0)")
      case Panic
      with Some show ?thesis by simp
    next
      case (Return tq)
      obtain t q where tq: "tq = (t, q)" by (cases tq)
      from Cons.IH show ?thesis
      proof
        assume "\<forall>res. Get_cursor b ks res = Panic"
        with Some Return tq show ?thesis by simp
      next
        assume "\<exists>m. \<forall>res. Get_cursor b ks res = Return (res ++ m)"
        then obtain m where m: "\<And>res. Get_cursor b ks res = Return (res ++ m)" by blast
        have "\<forall>res. Get_cursor b (k # ks) res = Return (res ++ ([t \<mapsto> q] ++ m))"
          using Some Return tq m by (simp add: map_add_upd_left)
        then show ?thesis by blast
      qed
    qed
  qed
qed

lemma Get_ForEach_Panic:
  assumes "\<And>res. Get_cursor b (map fst (nodes b)) res = Panic" and "kvs \<noteq> []"
  shows "Get_ForEach b kvs res = Panic"
  using assms by (cases kvs) simp_all

lemma Get_ForEach_Return:
  assumes "\<And>res. Get_cursor b (map fst (nodes b)) res = Return (res ++ m)"
  shows "Get_ForEach b kvs res = Return (if kvs = [] then res else res ++ m)"
proof (induction kvs arbitrary: res)
  case Nil
  then show ?case by simp
next
  case (Cons kv kvs)
  have idem: "res ++ m ++ m = res ++ m"
    by (rule ext) (simp add: map_add_def split: option.split)
  show ?case using Cons.IH assms idem by simp
qed

lemma Get_ForEach_single_pass:
  "Get_ForEach b (nodes b) Map.empty = Get_cursor b (map fst (nodes b)) Map.empty"
proof (cases "nodes b = []")
  case True
  then show ?thesis by simp
next
  case False
  from Get_cursor_shape[of b "map fst (nodes b)"] show ?thesis
  proof
    assume p: "\<forall>res. Get_cursor b (map fst (nodes b)) res = Panic"
    then show ?thesis using Get_ForEach_Panic[of b "nodes b"] False by simp
  next
    assume "\<exists>m. \<forall>res. Get_cursor b (map fst (nodes b)) res = Return (res ++ m)"
    then obtain m where m: "\<And>res. Get_cursor b (map fst (nodes b)) res = Return (res ++ m)"
      by blast
    show ?thesis using Get_ForEach_Return[OF m, of "nodes b" Map.empty] False m by simp
  qed
qed

text \<open>
  C9. \<open>subscriptions.Get\<close>, with its cursor loop nested in \<open>ForEach\<close>, returns what the
  single pass over the subscription entries returns, for every state of the store and
  every session: the same map and error, and a panic where the single pass panics.
\<close>

theorem subscriptions_Get_is_single_pass:
  "subscriptions_Get s sid = subscriptions_Get_single_pass s sid"
  unfolding subscriptions_Get_def subscriptions_Get_single_pass_def
    Get_ForEach_single_pass
  by (rule refl)

theorem subscriptions_Get_is_single_pass_witness:
  "\<exists>s1 s2.
      sessions_New (NewBoltDB (MkBucket 0 [])) (bytes_of ''c1'')
        = Return ((Some (bytes_of ''c1''), None), s1)
    \<and> subscriptions_Add s1 (bytes_of ''c1'')
          [(bytes_of ''a/b'', 1), (bytes_of ''c'', 2), (bytes_of ''a/b'', 0)]
        = Return (None, s2)
    \<and> subscriptions_Get s2 (bytes_of ''c1'')
        = Return (Some [bytes_of ''a/b'' \<mapsto> 0, bytes_of ''c'' \<mapsto> 2], None)
    \<and> subscriptions_Get_single_pass s2 (bytes_of ''c1'')
        = Return (Some [bytes_of ''a/b'' \<mapsto> 0, bytes_of ''c'' \<mapsto> 2], None)"
proof -
  let ?c1 = "bytes_of ''c1''"
  let ?r1 = "MkBucket 0 [(bucketSessions, Sub (MkBucket 0 [(?c1, Sub (MkBucket 0 []))]))]"
  let ?sub = "\<lambda>t q. Sub (MkBucket 0 [(bytes_of ''qos'', Val [q]), (bytes_of ''topic'', Val t)])"
  let ?r2 = "MkBucket 0 [(bucketSessions, Sub (MkBucket 0 [(?c1,
       Sub (MkBucket 0 [(bucketSubscriptions, Sub (MkBucket 3
         [(itob64 1, ?sub (bytes_of ''a/b'') 1), (itob64 2, ?sub (bytes_of ''c'') 2),
          (itob64 3, ?sub (bytes_of ''a/b'') 0)]))]))]))]"
  have 1: "sessions_New (NewBoltDB (MkBucket 0 [])) ?c1
             = Return ((Some ?c1, None), NewBoltDB ?r1)"
    by (simp add: sessions_New_def bolt_defs)
  have 2: "subscriptions_Add (NewBoltDB ?r1) ?c1
             [(bytes_of ''a/b'', 1), (bytes_of ''c'', 2), (bytes_of ''a/b'', 0)]
           = Return (None, NewBoltDB ?r2)"
    by (simp add: subscriptions_Add_def bolt_defs)
  have 3: "subscriptions_Get_single_pass (NewBoltDB ?r2) ?c1
             = Return (Some [bytes_of ''a/b'' \<mapsto> 0, bytes_of ''c'' \<mapsto> 2], None)"
    by (simp add: subscriptions_Get_single_pass_def bolt_defs fun_upd_twist)
  have 4: "subscriptions_Get (NewBoltDB ?r2) ?c1
             = Return (Some [bytes_of ''a/b'' \<mapsto> 0, bytes_of ''c'' \<mapsto> 2], None)"
    using 3 subscriptions_Get_is_single_pass [of "NewBoltDB ?r2" ?c1] by simp
  from 1 2 3 4 show ?thesis by blast
qed

end
